theory Spec2Isabelle
  imports Complex_Main "HOL-Library.Multiset" "HOL-Library.Sublist"
    "HOL-Library.Char_ord" "HOL-Library.List_Lexorder"
begin

section \<open>Text\<close>

text \<open>
  Text is ASCII: the case mappings, the character classes and the ordering below are
  Python's on ASCII characters. \<^verbatim>\<open>str.contains(pat, case=False)\<close> is only called with
  patterns that are plain words or alternatives of plain words, so the regular expression
  search is a search for a contiguous piece.
\<close>

definition lower_char :: "char \<Rightarrow> char" where
  "lower_char c =
     (case map_of (zip ''ABCDEFGHIJKLMNOPQRSTUVWXYZ'' ''abcdefghijklmnopqrstuvwxyz'') c of
        None \<Rightarrow> c | Some l \<Rightarrow> l)"


definition lower :: "string \<Rightarrow> string" where
  "lower s = map lower_char s"


definition isalnum :: "char \<Rightarrow> bool" where
  "isalnum c \<longleftrightarrow>
     c \<in> set ''abcdefghijklmnopqrstuvwxyzABCDEFGHIJKLMNOPQRSTUVWXYZ0123456789''"

definition isspace :: "char \<Rightarrow> bool" where
  "isspace c \<longleftrightarrow> (let n = (of_char c :: nat) in n = 32 \<or> (9 \<le> n \<and> n \<le> 13) \<or> (28 \<le> n \<and> n \<le> 31))"

definition strip :: "string \<Rightarrow> string" where
  "strip s = rev (dropWhile isspace (rev (dropWhile isspace s)))"


fun str_contains :: "string \<Rightarrow> string \<Rightarrow> bool" where
  "str_contains pat [] = (pat = [])"
| "str_contains pat (c # cs) = (prefix pat (c # cs) \<or> str_contains pat cs)"

definition contains_nocase :: "string \<Rightarrow> string \<Rightarrow> bool" where
  "contains_nocase pat s = str_contains (lower pat) (lower s)"

section \<open>Tables\<close>

text \<open>
  The table stages read a spreadsheet into a pandas DataFrame. A cell is a missing value
  (pandas NaN, also what an empty spreadsheet cell and Python's None become), a text or a
  number. A row is the dictionary of its cells by column name; a column a row does not
  mention reads as missing.
\<close>

datatype cell = NaN | Str string | Num real

type_synonym row = "(string \<times> cell) list"

record table =
  columns :: "string list"
  rows :: "row list"

definition cell_of :: "row \<Rightarrow> string \<Rightarrow> cell" where
  "cell_of r c = (case map_of r c of None \<Rightarrow> NaN | Some v \<Rightarrow> v)"

definition column :: "string \<Rightarrow> row list \<Rightarrow> cell list" where
  "column c rs = map (\<lambda>r. cell_of r c) rs"

definition is_Str :: "cell \<Rightarrow> bool" where
  "is_Str c = (case c of Str _ \<Rightarrow> True | _ \<Rightarrow> False)"

definition is_Num :: "cell \<Rightarrow> bool" where
  "is_Num c = (case c of Num _ \<Rightarrow> True | _ \<Rightarrow> False)"

text \<open>\<^verbatim>\<open>row[c] = v\<close> and \<^verbatim>\<open>del row[c]\<close> on the dictionary of a row.\<close>

fun set_cell :: "row \<Rightarrow> string \<Rightarrow> cell \<Rightarrow> row" where
  "set_cell [] c v = [(c, v)]"
| "set_cell ((k, w) # r) c v = (if k = c then (k, v) # r else (k, w) # set_cell r c v)"

definition del_cell :: "row \<Rightarrow> string \<Rightarrow> row" where
  "del_cell r c = filter (\<lambda>(k, _). k \<noteq> c) r"

text \<open>
  \<^verbatim>\<open>df.duplicated(subset=[c])\<close>: the mask that is True at a row whose key has been seen at an
  earlier row (missing keys are equal to each other), and
  \<^verbatim>\<open>df.drop_duplicates(subset=[c], keep='first')\<close>: the rows whose mask is False.
\<close>

fun duplicated_from :: "cell list \<Rightarrow> string \<Rightarrow> row list \<Rightarrow> bool list" where
  "duplicated_from seen c [] = []"
| "duplicated_from seen c (r # rs) =
     (if cell_of r c \<in> set seen then True # duplicated_from seen c rs
      else False # duplicated_from (cell_of r c # seen) c rs)"

definition duplicated :: "string \<Rightarrow> row list \<Rightarrow> bool list" where
  "duplicated c rs = duplicated_from [] c rs"

fun drop_duplicates_from :: "cell list \<Rightarrow> string \<Rightarrow> row list \<Rightarrow> row list" where
  "drop_duplicates_from seen c [] = []"
| "drop_duplicates_from seen c (r # rs) =
     (if cell_of r c \<in> set seen then drop_duplicates_from seen c rs
      else r # drop_duplicates_from (cell_of r c # seen) c rs)"

definition drop_duplicates :: "string \<Rightarrow> row list \<Rightarrow> row list" where
  "drop_duplicates c rs = drop_duplicates_from [] c rs"

text \<open>
  \<^verbatim>\<open>Series.unique()\<close>: the values in order of first appearance. The values that a report
  loop lists: \<^verbatim>\<open>df[df.duplicated(subset=[c], keep=False)][c].unique()\<close>, the keys that
  more than one row has. \<^verbatim>\<open>sorted\<close> of them raises TypeError when a text is compared with
  a number or with a missing value (a float).
\<close>

fun unique_from :: "cell list \<Rightarrow> cell list \<Rightarrow> cell list" where
  "unique_from seen [] = []"
| "unique_from seen (c # cs) =
     (if c \<in> set seen then unique_from seen cs else c # unique_from (c # seen) cs)"

definition unique :: "cell list \<Rightarrow> cell list" where
  "unique cs = unique_from [] cs"

definition duplicate_values :: "string \<Rightarrow> row list \<Rightarrow> cell list" where
  "duplicate_values c rs =
     unique (filter (\<lambda>k. length (filter (\<lambda>k'. k' = k) (column c rs)) > 1) (column c rs))"

definition sortable :: "cell list \<Rightarrow> bool" where
  "sortable cs \<longleftrightarrow> (\<forall>c \<in> set cs. is_Str c) \<or> (\<forall>c \<in> set cs. \<not> is_Str c)"

text \<open>
  \<^verbatim>\<open>Series.isin(values)\<close> and \<^verbatim>\<open>Series.str.contains(pat, case=False, na=False)\<close> at one
  cell: a cell that is not a text matches nothing.
\<close>

definition isin :: "cell \<Rightarrow> string list \<Rightarrow> bool" where
  "isin c vs = (case c of Str s \<Rightarrow> s \<in> set vs | _ \<Rightarrow> False)"

definition cell_contains :: "string \<Rightarrow> cell \<Rightarrow> bool" where
  "cell_contains pat c = (case c of Str s \<Rightarrow> contains_nocase pat s | _ \<Rightarrow> False)"

text \<open>
  The \<^verbatim>\<open>.str\<close> accessor raises AttributeError on a column that holds no text. A column
  read from a spreadsheet has the object dtype when it has no row or some text cell; the
  accessor then wants the present values to be texts (possibly mixed with numbers) or all
  missing. The first argument says whether the column had the object dtype when read, which
  a selection of rows keeps.
\<close>

definition object_dtype :: "cell list \<Rightarrow> bool" where
  "object_dtype cs \<longleftrightarrow> cs = [] \<or> (\<exists>c \<in> set cs. is_Str c)"

definition str_accessor_ok :: "bool \<Rightarrow> cell list \<Rightarrow> bool" where
  "str_accessor_ok obj cs \<longleftrightarrow> obj \<and> ((\<exists>c \<in> set cs. is_Str c) \<or> (\<forall>c \<in> set cs. c = NaN))"

text \<open>
  \<^verbatim>\<open>df.sort_values(c, ascending=False)\<close>: rows with a missing key last, the others by
  descending key. Comparing a text with a number raises TypeError (None). pandas does not
  fix the order of rows with equal keys; the model keeps them in input order.
\<close>

definition num_key :: "string \<Rightarrow> row \<Rightarrow> real" where
  "num_key c r = (case cell_of r c of Num x \<Rightarrow> x | _ \<Rightarrow> 0)"

definition str_key :: "string \<Rightarrow> row \<Rightarrow> string" where
  "str_key c r = (case cell_of r c of Str s \<Rightarrow> s | _ \<Rightarrow> [])"

definition sort_values_desc :: "string \<Rightarrow> row list \<Rightarrow> row list option" where
  "sort_values_desc c rs =
     (let present = filter (\<lambda>r. cell_of r c \<noteq> NaN) rs;
          missing = filter (\<lambda>r. cell_of r c = NaN) rs
      in if (\<exists>r \<in> set present. is_Str (cell_of r c)) \<and> (\<exists>r \<in> set present. is_Num (cell_of r c))
         then None
         else if \<exists>r \<in> set present. is_Str (cell_of r c)
         then Some (rev (sort_key (str_key c) (rev present)) @ missing)
         else Some (sort_key (\<lambda>r. - num_key c r) present @ missing))"

section \<open>remove\_duplicates.py\<close>

datatype stage_error =
    InputFileNotFound
  | MissingColumn string
  | NoUsdStocks
  | NoUsStocks
  | ProcessingError

text \<open>
  \<^verbatim>\<open>remove_duplicates()\<close>. The argument is the table read from the input file, None when
  the file does not exist. The result is the error printed, or the table returned together
  with the table saved to the output file: when no row is a duplicate the function returns
  the table it read before the save, so nothing is saved. The loop that prints the symbols
  that had duplicates sorts them before the save; when the sort raises, the function prints
  the error, returns None and saves nothing.
\<close>

definition remove_duplicates :: "table option \<Rightarrow> stage_error + (table \<times> table option)" where
  "remove_duplicates input =
     (case input of
        None \<Rightarrow> Inl InputFileNotFound
      | Some df \<Rightarrow>
          if ''Symbol'' \<notin> set (columns df) then Inl (MissingColumn ''Symbol'')
          else
            let duplicate_count = length (filter id (duplicated ''Symbol'' (rows df))) in
            if duplicate_count = 0 then Inr (df, None)
            else
              let df_cleaned = df\<lparr>rows := drop_duplicates ''Symbol'' (rows df)\<rparr>;
                  duplicates = duplicate_values ''Symbol'' (rows df)
              in if \<not> sortable duplicates then Inl ProcessingError
                 else Inr (df_cleaned, Some df_cleaned))"


section \<open>filter\_usd\_stocks.py\<close>

definition usd_variations :: "string list" where
  "usd_variations = [''USD'', ''usd'', ''Usd'', ''US Dollar'', ''US$'', ''$'']"

definition us_variations :: "string list" where
  "us_variations = [''US'', ''us'', ''Us'', ''USA'', ''usa'', ''U.S.'', ''U.S.A.'',
     ''United States'', ''United States of America'']"

definition usd_currency :: "cell \<Rightarrow> bool" where
  "usd_currency c \<longleftrightarrow>
     isin c usd_variations \<or> cell_contains ''USD'' c \<or> cell_contains ''US Dollar'' c"

definition us_country :: "cell \<Rightarrow> bool" where
  "us_country c \<longleftrightarrow>
     isin c us_variations \<or> cell_contains ''United States'' c \<or> cell_contains ''USA'' c
       \<or> cell_contains ''US'' c"

text \<open>Step 1 of \<^verbatim>\<open>filter_usd_stocks()\<close>: the rows kept by the currency mask (\<^verbatim>\<open>df_usd\<close>).\<close>

definition usd_filter :: "row list \<Rightarrow> row list" where
  "usd_filter rs = filter (\<lambda>r. usd_currency (cell_of r ''Currency'')) rs"

definition us_filter :: "row list \<Rightarrow> row list" where
  "us_filter rs = filter (\<lambda>r. us_country (cell_of r ''Country'')) rs"

text \<open>
  Step 2: the duplicates are dropped when the mask counts one, and the symbols that had
  duplicates are printed in sorted order; when the sort raises, the function prints the
  error and returns None.
\<close>

definition dedup_symbols :: "row list \<Rightarrow> stage_error + row list" where
  "dedup_symbols rs =
     (let duplicate_count = length (filter id (duplicated ''Symbol'' rs))
      in if duplicate_count = 0 then Inr rs
         else
           let df_final = drop_duplicates ''Symbol'' rs;
               duplicates = duplicate_values ''Symbol'' rs
           in if \<not> sortable duplicates then Inl ProcessingError else Inr df_final)"

text \<open>
  \<^verbatim>\<open>filter_usd_stocks()\<close> up to the save: the result is the error printed, or the table
  written to the output file. The statistics printed after the save are not modelled.
\<close>

definition filter_usd_stocks :: "table option \<Rightarrow> stage_error + table" where
  "filter_usd_stocks input =
     (case input of
        None \<Rightarrow> Inl InputFileNotFound
      | Some df \<Rightarrow>
          if ''Currency'' \<notin> set (columns df) then Inl (MissingColumn ''Currency'')
          else if ''Symbol'' \<notin> set (columns df) then Inl (MissingColumn ''Symbol'')
          else if \<not> str_accessor_ok (object_dtype (column ''Currency'' (rows df)))
                     (column ''Currency'' (rows df))
          then Inl ProcessingError
          else
            let df_usd = usd_filter (rows df) in
            if length df_usd = 0 then Inl NoUsdStocks
            else
              let country =
                (if ''Country'' \<in> set (columns df) then
                   if \<not> str_accessor_ok (object_dtype (column ''Country'' (rows df)))
                          (column ''Country'' df_usd)
                   then Inl ProcessingError
                   else
                     let df_usd_us = us_filter df_usd in
                     if length df_usd_us = 0 then Inl NoUsStocks else Inr df_usd_us
                 else Inr df_usd)
              in case country of
                   Inl e \<Rightarrow> Inl e
                 | Inr df_filtered \<Rightarrow>
                     (case dedup_symbols df_filtered of
                        Inl e \<Rightarrow> Inl e
                      | Inr df_final \<Rightarrow>
                          if ''Discount %'' \<in> set (columns df) then
                            (case sort_values_desc ''Discount %'' df_final of
                               None \<Rightarrow> Inl ProcessingError
                             | Some sorted_rows \<Rightarrow> Inr (df\<lparr>rows := sorted_rows\<rparr>))
                          else Inr (df\<lparr>rows := df_final\<rparr>)))"

section \<open>filter\_exchange\_stocks.py\<close>








section \<open>HTTP responses\<close>

text \<open>
  What \<^verbatim>\<open>requests.get\<close> gives: a timeout, another request exception, or a response with
  a status code and a body. A body is not JSON (\<^verbatim>\<open>response.json()\<close> raises ValueError), a
  JSON object with the key \<^verbatim>\<open>Error Message\<close>, or a JSON list of objects, given as the list
  of the fields the caller reads.
\<close>

datatype 'a body = NotJson | ErrorMessage string | Json 'a

datatype 'a http = Timeout | RequestException | Http nat "'a body"

datatype py_exception = KeyError | TypeError | AttributeError | IndexError

section \<open>analyze\_quarterly\_undervalued.py\<close>

text \<open>
  \<^verbatim>\<open>make_api_request\<close> of the sector organizer: the response when its status is 200, None
  otherwise (a 429, a 401 or 403 and any other status are logged and give None).
\<close>

definition analyze_make_api_request :: "'a http \<Rightarrow> 'a body option" where
  "analyze_make_api_request r =
     (case r of
        Http status_code b \<Rightarrow> if status_code = 200 then Some b else None
      | _ \<Rightarrow> None)"

text \<open>
  The three endpoints \<^verbatim>\<open>get_market_cap\<close> asks, by symbol: the \<^verbatim>\<open>marketCap\<close> of each
  key-metrics object, the \<^verbatim>\<open>mktCap\<close> of each profile object, the \<^verbatim>\<open>price\<close> and
  \<^verbatim>\<open>sharesOutstanding\<close> of each quote object (None for an absent or null field).
\<close>

record market_api =
  key_metrics :: "cell \<Rightarrow> real option list http"
  profile_mkt_cap :: "cell \<Rightarrow> real option list http"
  quote_shares :: "cell \<Rightarrow> (real option \<times> real option) list http"

text \<open>Python's truth value of an optional number: neither None nor zero.\<close>

definition truthy :: "real option \<Rightarrow> bool" where
  "truthy v = (case v of None \<Rightarrow> False | Some x \<Rightarrow> x \<noteq> 0)"

text \<open>
  One endpoint of \<^verbatim>\<open>get_market_cap\<close>: the market cap found (\<^verbatim>\<open>Some\<close>), nothing found, or
  the KeyError that \<^verbatim>\<open>data[0]\<close> raises on a JSON object, which the \<^verbatim>\<open>except\<close> clause
  (ValueError, IndexError, TypeError) does not catch.
\<close>

definition first_market_cap :: "real option list body option \<Rightarrow> py_exception + real option" where
  "first_market_cap response =
     (case response of
        None \<Rightarrow> Inr None
      | Some NotJson \<Rightarrow> Inr None
      | Some (ErrorMessage _) \<Rightarrow> Inl KeyError
      | Some (Json []) \<Rightarrow> Inr None
      | Some (Json (market_cap # _)) \<Rightarrow>
          if truthy market_cap \<and> the market_cap > 0 then Inr market_cap else Inr None)"

definition quote_market_cap ::
  "(real option \<times> real option) list body option \<Rightarrow> py_exception + real option" where
  "quote_market_cap response =
     (case response of
        None \<Rightarrow> Inr None
      | Some NotJson \<Rightarrow> Inr None
      | Some (ErrorMessage _) \<Rightarrow> Inl KeyError
      | Some (Json []) \<Rightarrow> Inr None
      | Some (Json ((price, shares_outstanding) # _)) \<Rightarrow>
          if truthy price \<and> truthy shares_outstanding then
            let market_cap = the price * the shares_outstanding in
            if market_cap > 0 then Inr (Some market_cap) else Inr None
          else Inr None)"

definition get_market_cap :: "market_api \<Rightarrow> cell \<Rightarrow> py_exception + real option" where
  "get_market_cap api symbol =
     (case first_market_cap (analyze_make_api_request (key_metrics api symbol)) of
        Inl e \<Rightarrow> Inl e
      | Inr (Some m) \<Rightarrow> Inr (Some m)
      | Inr None \<Rightarrow>
          (case first_market_cap (analyze_make_api_request (profile_mkt_cap api symbol)) of
             Inl e \<Rightarrow> Inl e
           | Inr (Some m) \<Rightarrow> Inr (Some m)
           | Inr None \<Rightarrow> quote_market_cap (analyze_make_api_request (quote_shares api symbol))))"

text \<open>Python's truth value of a cell: NaN is true, a text unless empty, a number unless zero.\<close>

definition cell_truthy :: "cell \<Rightarrow> bool" where
  "cell_truthy c = (case c of NaN \<Rightarrow> True | Str s \<Rightarrow> s \<noteq> [] | Num x \<Rightarrow> x \<noteq> 0)"

text \<open>
  \<^verbatim>\<open>process_stock(row, ...)\<close> of the sector organizer: None for a row without symbol, else
  the row without \<^verbatim>\<open>Region_Fetched\<close> and with \<^verbatim>\<open>Market Cap\<close>, which is None (a missing
  cell) when no market cap was fetched.
\<close>

definition analyze_process_stock :: "market_api \<Rightarrow> row \<Rightarrow> py_exception + row option" where
  "analyze_process_stock api row =
     (let symbol = cell_of row ''Symbol'' in
      if \<not> cell_truthy symbol then Inr None
      else
        case get_market_cap api symbol of
          Inl e \<Rightarrow> Inl e
        | Inr market_cap \<Rightarrow>
            let result_row = del_cell row ''Region_Fetched''
            in Inr (Some (set_cell result_row ''Market Cap''
                 (if truthy market_cap then Num (the market_cap) else NaN))))"

text \<open>
  The pool of \<^verbatim>\<open>main\<close>: every row of the table (with its index label) is processed, here
  in table order. A result is appended; an exception is logged, and the handler reads
  \<^verbatim>\<open>df.iloc[idx]\<close> with the row's label, which raises IndexError when the label is not a
  position of the table.
\<close>

fun process_all ::
  "market_api \<Rightarrow> nat \<Rightarrow> (nat \<times> row) list \<Rightarrow> py_exception + row list" where
  "process_all api n [] = Inr []"
| "process_all api n ((idx, row) # rest) =
     (case analyze_process_stock api row of
        Inl e \<Rightarrow> if idx < n then process_all api n rest else Inl IndexError
      | Inr None \<Rightarrow> process_all api n rest
      | Inr (Some result) \<Rightarrow>
          (case process_all api n rest of
             Inl e \<Rightarrow> Inl e
           | Inr results \<Rightarrow> Inr (result # results)))"

text \<open>The columns of the table built from the result rows, and their reordering.\<close>

definition processed_columns :: "string list \<Rightarrow> string list" where
  "processed_columns cols =
     (let kept = filter (\<lambda>c. c \<noteq> ''Region_Fetched'') cols
      in if ''Market Cap'' \<in> set kept then kept else kept @ [''Market Cap''])"

definition ordered_columns :: "string list \<Rightarrow> string list" where
  "ordered_columns all_columns =
     (let priority_columns = [''Symbol'', ''Company Name'']
            @ (if ''Current Price'' \<in> set all_columns then [''Current Price''] else [])
            @ (if ''DCF Price'' \<in> set all_columns then [''DCF Price''] else []);
          remaining_important = [''Market Cap'', ''Price Difference'', ''Price Difference %'',
            ''Sector'', ''Industry'', ''Country'', ''Currency''];
          first = filter (\<lambda>c. c \<in> set all_columns) priority_columns;
          second = filter (\<lambda>c. c \<in> set all_columns \<and> c \<notin> set first) remaining_important
      in first @ second @ filter (\<lambda>c. c \<notin> set first \<and> c \<notin> set second) all_columns)"

text \<open>
  \<^verbatim>\<open>pd.to_numeric(..., errors='coerce')\<close> at one cell; how pandas reads a text as a
  number is a parameter.
\<close>

definition to_numeric :: "(string \<Rightarrow> real option) \<Rightarrow> cell \<Rightarrow> cell" where
  "to_numeric parse c =
     (case c of
        NaN \<Rightarrow> NaN
      | Num x \<Rightarrow> Num x
      | Str s \<Rightarrow> (case parse s of None \<Rightarrow> NaN | Some x \<Rightarrow> Num x))"

definition at_least :: "cell \<Rightarrow> real \<Rightarrow> bool" where
  "at_least c bound = (case c of Num x \<Rightarrow> x \<ge> bound | _ \<Rightarrow> False)"

text \<open>The market cap filter of \<^verbatim>\<open>main\<close>: the column is made numeric, then compared.\<close>

definition market_cap_filter :: "(string \<Rightarrow> real option) \<Rightarrow> row list \<Rightarrow> row list" where
  "market_cap_filter parse rs =
     filter (\<lambda>r. at_least (cell_of r ''Market Cap'') 1000000000)
       (map (\<lambda>r. set_cell r ''Market Cap'' (to_numeric parse (cell_of r ''Market Cap''))) rs)"

text \<open>\<^verbatim>\<open>fillna('Unknown')\<close> on the sector column.\<close>

definition fill_sector :: "row \<Rightarrow> row" where
  "fill_sector r =
     (if cell_of r ''Sector'' = NaN then set_cell r ''Sector'' (Str ''Unknown'') else r)"

text \<open>
  \<^verbatim>\<open>sorted(sectors)\<close>: texts in lexicographic order of their characters, numbers in
  order; a text and a number do not compare (TypeError).
\<close>

definition the_Str :: "cell \<Rightarrow> string" where
  "the_Str c = (case c of Str s \<Rightarrow> s | _ \<Rightarrow> [])"

definition the_Num :: "cell \<Rightarrow> real" where
  "the_Num c = (case c of Num x \<Rightarrow> x | _ \<Rightarrow> 0)"

definition sorted_sectors :: "cell list \<Rightarrow> py_exception + cell list" where
  "sorted_sectors cs =
     (if \<forall>c \<in> set cs. is_Str c then Inr (map Str (sort (map the_Str cs)))
      else if \<forall>c \<in> set cs. is_Num c then Inr (map Num (sort (map the_Num cs)))
      else Inl TypeError)"

text \<open>
  \<^verbatim>\<open>str\<close> of a cell (how Python prints a number is a parameter), and the file name of a
  sector: the characters of \<^verbatim>\<open>str(sector)\<close> that are alphanumeric, a space, a hyphen or
  an underscore; stripped; spaces replaced by underscores; \<^verbatim>\<open>Unknown\<close> when nothing is
  left.
\<close>

definition cell_str :: "(real \<Rightarrow> string) \<Rightarrow> cell \<Rightarrow> string" where
  "cell_str float_str c = (case c of Str s \<Rightarrow> s | Num x \<Rightarrow> float_str x | NaN \<Rightarrow> ''nan'')"

definition safe_sector_name :: "string \<Rightarrow> string" where
  "safe_sector_name s =
     (let kept = strip (filter (\<lambda>c. isalnum c \<or> c \<in> set '' -_'') s);
          replaced = map (\<lambda>c. if c = CHR '' '' then CHR ''_'' else c) kept
      in if replaced = [] then ''Unknown'' else replaced)"

definition output_file :: "(real \<Rightarrow> string) \<Rightarrow> cell \<Rightarrow> string" where
  "output_file float_str sector = safe_sector_name (cell_str float_str sector) @ ''.xlsx''"

text \<open>
  The loop over the sorted sectors: the rows of the sector, sorted by discount when the
  column exists, are written to the sector's file, which replaces a file of that name
  written before. A TypeError of the sort ends the run with the files written so far.
\<close>

fun write_sectors ::
  "(real \<Rightarrow> string) \<Rightarrow> string list \<Rightarrow> row list \<Rightarrow> cell list \<Rightarrow> (string \<rightharpoonup> table)
     \<Rightarrow> (string \<rightharpoonup> table) \<times> py_exception option" where
  "write_sectors float_str cols rs [] files = (files, None)"
| "write_sectors float_str cols rs (sector # sectors) files =
     (let sector_df = filter (\<lambda>r. cell_of r ''Sector'' = sector) rs;
          sorted_df = (if ''Discount %'' \<in> set cols then sort_values_desc ''Discount %'' sector_df
                       else Some sector_df)
      in case sorted_df of
           None \<Rightarrow> (files, Some TypeError)
         | Some sector_rows \<Rightarrow>
             write_sectors float_str cols rs sectors
               (files(output_file float_str sector \<mapsto> \<lparr>columns = cols, rows = sector_rows\<rparr>)))"

text \<open>
  The part of \<^verbatim>\<open>main\<close> after the market cap filter: the sector column is added when
  absent, missing sectors become \<^verbatim>\<open>Unknown\<close>, and one file per sector is written.
\<close>

definition partition_by_sector ::
  "(real \<Rightarrow> string) \<Rightarrow> table \<Rightarrow> (string \<rightharpoonup> table) \<times> py_exception option" where
  "partition_by_sector float_str df_processed =
     (let cols = (if ''Sector'' \<in> set (columns df_processed) then columns df_processed
                  else columns df_processed @ [''Sector'']);
          rs = map fill_sector (rows df_processed);
          sectors = unique (column ''Sector'' rs)
      in case sorted_sectors sectors of
           Inl e \<Rightarrow> (Map.empty, Some e)
         | Inr ordered \<Rightarrow> write_sectors float_str cols rs ordered Map.empty)"

datatype main_end =
    NoApiKey
  | InputNotFound
  | MissingColumns "string list"
  | NoValidStocks
  | NoStocksProcessed
  | NoStocksRemaining
  | Raised py_exception
  | Complete

text \<open>
  \<^verbatim>\<open>main()\<close> of the sector organizer. Arguments: whether the API key is set, the API, the
  two parameters above, and the table read from the input file (None when the file is
  missing or unreadable). Result: the spreadsheets of the output folder by file name, and
  how the run ended. The summary text file is not modelled.
\<close>

definition dropna_symbol :: "(nat \<times> row) list \<Rightarrow> (nat \<times> row) list" where
  "dropna_symbol irs = filter (\<lambda>(i, r). cell_of r ''Symbol'' \<noteq> NaN) irs"

definition symbol_not_blank :: "(real \<Rightarrow> string) \<Rightarrow> row \<Rightarrow> bool" where
  "symbol_not_blank float_str r \<longleftrightarrow>
     cell_of r ''Symbol'' \<noteq> NaN \<and> strip (cell_str float_str (cell_of r ''Symbol'')) \<noteq> []"

definition analyze_main ::
  "bool \<Rightarrow> market_api \<Rightarrow> (string \<Rightarrow> real option) \<Rightarrow> (real \<Rightarrow> string) \<Rightarrow> table option
     \<Rightarrow> (string \<rightharpoonup> table) \<times> main_end" where
  "analyze_main api_key api parse float_str input =
     (if \<not> api_key then (Map.empty, NoApiKey)
      else case input of
        None \<Rightarrow> (Map.empty, InputNotFound)
      | Some df0 \<Rightarrow>
          let missing_columns = filter (\<lambda>col. col \<notin> set (columns df0)) [''Symbol''] in
          if missing_columns \<noteq> [] then (Map.empty, MissingColumns missing_columns)
          else
            let df = dropna_symbol (zip [0 ..< length (rows df0)] (rows df0)) in
            if length df = 0 then (Map.empty, NoValidStocks)
            else
              case process_all api (length df) df of
                Inl e \<Rightarrow> (Map.empty, Raised e)
              | Inr processed_stocks \<Rightarrow>
                  if length processed_stocks = 0 then (Map.empty, NoStocksProcessed)
                  else
                    let cols = ordered_columns (processed_columns (columns df0));
                        valid = filter (symbol_not_blank float_str) processed_stocks;
                        df_processed = (if ''Market Cap'' \<in> set cols
                                        then market_cap_filter parse valid else valid)
                    in if length df_processed = 0 then (Map.empty, NoStocksRemaining)
                       else
                         case partition_by_sector float_str \<lparr>columns = cols, rows = df_processed\<rparr> of
                           (files, None) \<Rightarrow> (files, Complete)
                         | (files, Some e) \<Rightarrow> (files, Raised e))"

section \<open>fetch\_undervalued\_stocks.py: data\<close>

text \<open>
  Prices and DCF values are exact real numbers; Python's binary floating point is not
  modelled. \<^verbatim>\<open>round(x, 2)\<close> rounds to the nearest hundredth, a tie to the even one.
\<close>

definition round2 :: "real \<Rightarrow> real" where
  "round2 x =
     (let y = x * 100; f = \<lfloor>y\<rfloor>; d = y - of_int f
      in (if d < 1 / 2 \<or> (d = 1 / 2 \<and> even f) then of_int f else of_int (f + 1)) / 100)"

text \<open>
  A field of a JSON object read with \<^verbatim>\<open>item.get(key, default)\<close>: an absent key gives the
  default, a null gives None.
\<close>

datatype 'a field = Absent | Null | Val 'a

definition get_or :: "'a field \<Rightarrow> 'a \<Rightarrow> 'a option" where
  "get_or f d = (case f of Absent \<Rightarrow> Some d | Null \<Rightarrow> None | Val v \<Rightarrow> Some v)"

record profile =
  sector :: "string option"
  industry :: "string option"
  companyName :: "string option"

record profile_item =
  item_symbol :: string
  item_sector :: "string field"
  item_industry :: "string field"
  item_companyName :: "string field"

definition profile_of :: "profile_item \<Rightarrow> profile" where
  "profile_of item =
     \<lparr>sector = get_or (item_sector item) ''N/A'',
      industry = get_or (item_industry item) ''N/A'',
      companyName = get_or (item_companyName item) ''N/A''\<rparr>"

text \<open>The row written for an undervalued or fair stock (\<^verbatim>\<open>stock_data\<close>).\<close>

record stock_data =
  Symbol :: string
  Company_Name :: "string option"
  Current_Price :: real
  DCF_Price :: real
  Discount_pct :: real
  Premium_pct :: real
  Valuation_Status :: string
  Sector :: "string option"
  Industry :: "string option"
  Timestamp :: string

text \<open>
  The stock cache maps a symbol to the dictionary of its fields (\<^verbatim>\<open>price\<close> and \<^verbatim>\<open>dcf\<close>:
  a number or null; \<^verbatim>\<open>profile\<close>: a profile or null; \<^verbatim>\<open>timestamp\<close>: a text), and the two
  special keys \<^verbatim>\<open>_undervalued_stocks\<close> and \<^verbatim>\<open>_fair_stocks\<close> to lists of rows.
\<close>

datatype cval = CNull | CNum real | CStr string | CProfile profile

type_synonym entry = "string \<rightharpoonup> cval"

datatype cache_val = Entry entry | Records "stock_data list"

type_synonym cache = "string \<rightharpoonup> cache_val"

datatype event =
    ApiKeyError string
  | CheckApiKey
  | AuthenticationFailed nat
  | RateLimitHit
  | ApiError string
  | HttpError nat
  | RequestTimeout
  | RequestError
  | ValidationFailed nat
  | ValidationWarning nat
  | ValidationException
  | ErrorProcessingStock string py_exception
  | UnexpectedError py_exception

text \<open>
  The module's global state: the stock cache, the separate list of undervalued stocks,
  the two result lists of a run, and the warnings and errors logged (information and debug
  messages are left out).
\<close>

record state =
  stock_cache :: cache
  undervalued_stocks_cache :: "stock_data list"
  undervalued_stocks :: "stock_data list"
  fair_stocks :: "stock_data list"
  logged :: "event list"

section \<open>fetch\_undervalued\_stocks.py: cache\<close>

definition get_cached_stock :: "string \<Rightarrow> cache \<Rightarrow> cache_val option" where
  "get_cached_stock symbol c = c symbol"

text \<open>
  \<^verbatim>\<open>cache_stock(symbol, price, dcf, profile)\<close> with the clock reading \<^verbatim>\<open>now\<close>. Under a key
  that holds a list, the first assignment \<^verbatim>\<open>stock_cache[symbol][...] = ...\<close> raises TypeError
  and the cache is as before.
\<close>

definition cache_stock ::
  "string \<Rightarrow> real option \<Rightarrow> real option \<Rightarrow> profile option \<Rightarrow> string \<Rightarrow> cache
     \<Rightarrow> py_exception + cache" where
  "cache_stock symbol price dcf profile now c =
     (case (case c symbol of
              None \<Rightarrow> Some Map.empty
            | Some (Entry e) \<Rightarrow> Some e
            | Some (Records _) \<Rightarrow> None) of
        None \<Rightarrow> Inl TypeError
      | Some e \<Rightarrow>
          let e1 = (case price of None \<Rightarrow> e | Some p \<Rightarrow> e(''price'' \<mapsto> CNum p));
              e2 = (case dcf of None \<Rightarrow> e1 | Some d \<Rightarrow> e1(''dcf'' \<mapsto> CNum d));
              e3 = (case profile of None \<Rightarrow> e2 | Some p \<Rightarrow> e2(''profile'' \<mapsto> CProfile p))
          in Inr (c(symbol \<mapsto> Entry (e3(''timestamp'' \<mapsto> CStr now)))))"

text \<open>The fields of the entry of a symbol; none when the symbol is not cached.\<close>

definition fields_of :: "cache \<Rightarrow> string \<Rightarrow> string set" where
  "fields_of c symbol = (case c symbol of Some (Entry e) \<Rightarrow> dom e | _ \<Rightarrow> {})"

text \<open>
  \<^verbatim>\<open>cached and key in cached and cached[key] is not None\<close>, for a number and for a
  profile.
\<close>

definition cached_num :: "cache \<Rightarrow> string \<Rightarrow> string \<Rightarrow> real option" where
  "cached_num c symbol key =
     (case get_cached_stock symbol c of
        Some (Entry e) \<Rightarrow> (case e key of Some (CNum x) \<Rightarrow> Some x | _ \<Rightarrow> None)
      | _ \<Rightarrow> None)"

definition cached_profile :: "cache \<Rightarrow> string \<Rightarrow> profile option" where
  "cached_profile c symbol =
     (case get_cached_stock symbol c of
        Some (Entry e) \<Rightarrow> (case e ''profile'' of Some (CProfile p) \<Rightarrow> Some p | _ \<Rightarrow> None)
      | _ \<Rightarrow> None)"

section \<open>fetch\_undervalued\_stocks.py: requests\<close>

text \<open>
  \<^verbatim>\<open>make_api_request(url)\<close>, given what the server answers: the response, or None with
  what is logged. A 401 or 403 whose body is JSON without \<^verbatim>\<open>Error Message\<close> logs nothing.
\<close>

definition make_api_request :: "'a http \<Rightarrow> 'a body option \<times> event list" where
  "make_api_request r =
     (case r of
        Timeout \<Rightarrow> (None, [RequestTimeout])
      | RequestException \<Rightarrow> (None, [RequestError])
      | Http status_code b \<Rightarrow>
          if status_code = 401 \<or> status_code = 403 then
            (None, case b of
                     ErrorMessage m \<Rightarrow> [ApiKeyError m, CheckApiKey]
                   | Json _ \<Rightarrow> []
                   | NotJson \<Rightarrow> [AuthenticationFailed status_code])
          else if status_code = 429 then (None, [RateLimitHit])
          else if status_code \<ge> 400 then
            (None, case b of ErrorMessage m \<Rightarrow> [ApiError m] | _ \<Rightarrow> [HttpError status_code])
          else (Some b, []))"

text \<open>
  The server: what each endpoint answers, by symbol (by part for the bulk profiles). A
  list element holds the fields the caller reads: symbol and \<^verbatim>\<open>dcf\<close> of a bulk DCF object,
  \<^verbatim>\<open>dcf\<close> and \<^verbatim>\<open>Stock Price\<close> of a DCF object, \<^verbatim>\<open>price\<close> of a quote (None for an absent or
  null number). A stock of the stock list is its symbol, empty when it has none.
\<close>

record fmp_api =
  stock_list :: "string list http"
  dcf_bulk :: "(string \<times> real option) list http"
  profile_bulk :: "nat \<Rightarrow> profile_item list http"
  discounted_cash_flow :: "string \<Rightarrow> (real option \<times> real option) list http"
  quote :: "string \<Rightarrow> real option list http"
  company_profile :: "string \<Rightarrow> profile_item list http"
  validation :: "unit http"

definition add_log :: "event list \<Rightarrow> state \<Rightarrow> state" where
  "add_log es s = s\<lparr>logged := logged s @ es\<rparr>"

text \<open>
  \<^verbatim>\<open>get_dcf_value(symbol)\<close>: the cached DCF and price, else the first object of the
  response. \<^verbatim>\<open>data[0]\<close> on a JSON object raises KeyError, which the function does not catch;
  a TypeError of \<^verbatim>\<open>cache_stock\<close> is caught and gives no value.
\<close>

definition get_dcf_value ::
  "fmp_api \<Rightarrow> string \<Rightarrow> string \<Rightarrow> state
     \<Rightarrow> (py_exception + (real option \<times> real option)) \<times> state" where
  "get_dcf_value api now symbol s =
     (case cached_num (stock_cache s) symbol ''dcf'' of
        Some d \<Rightarrow> (Inr (Some d, cached_num (stock_cache s) symbol ''price''), s)
      | None \<Rightarrow>
          (case make_api_request (discounted_cash_flow api symbol) of
             (response, es) \<Rightarrow>
               let s1 = add_log es s in
               case response of
                 None \<Rightarrow> (Inr (None, None), s1)
               | Some NotJson \<Rightarrow> (Inr (None, None), s1)
               | Some (ErrorMessage _) \<Rightarrow> (Inl KeyError, s1)
               | Some (Json []) \<Rightarrow> (Inr (None, None), s1)
               | Some (Json ((dcf_value, stock_price_from_dcf) # _)) \<Rightarrow>
                   if truthy dcf_value \<and> the dcf_value > 0 then
                     (case cache_stock symbol
                             (if truthy stock_price_from_dcf \<and> the stock_price_from_dcf > 0
                              then stock_price_from_dcf else None)
                             dcf_value None now (stock_cache s1) of
                        Inl _ \<Rightarrow> (Inr (None, None), s1)
                      | Inr c \<Rightarrow> (Inr (dcf_value, stock_price_from_dcf), s1\<lparr>stock_cache := c\<rparr>))
                   else (Inr (None, None), s1)))"

text \<open>\<^verbatim>\<open>get_stock_price(symbol)\<close>.\<close>

definition get_stock_price ::
  "fmp_api \<Rightarrow> string \<Rightarrow> string \<Rightarrow> state \<Rightarrow> (py_exception + real option) \<times> state" where
  "get_stock_price api now symbol s =
     (case cached_num (stock_cache s) symbol ''price'' of
        Some p \<Rightarrow> (Inr (Some p), s)
      | None \<Rightarrow>
          (case make_api_request (quote api symbol) of
             (response, es) \<Rightarrow>
               let s1 = add_log es s in
               case response of
                 None \<Rightarrow> (Inr None, s1)
               | Some NotJson \<Rightarrow> (Inr None, s1)
               | Some (ErrorMessage _) \<Rightarrow> (Inl KeyError, s1)
               | Some (Json []) \<Rightarrow> (Inr None, s1)
               | Some (Json (price # _)) \<Rightarrow>
                   if truthy price \<and> the price > 0 then
                     (case cache_stock symbol price None None now (stock_cache s1) of
                        Inl _ \<Rightarrow> (Inr None, s1)
                      | Inr c \<Rightarrow> (Inr price, s1\<lparr>stock_cache := c\<rparr>))
                   else (Inr None, s1)))"

text \<open>\<^verbatim>\<open>get_company_profile(symbol)\<close>.\<close>

definition get_company_profile ::
  "fmp_api \<Rightarrow> string \<Rightarrow> string \<Rightarrow> state \<Rightarrow> (py_exception + profile option) \<times> state" where
  "get_company_profile api now symbol s =
     (case cached_profile (stock_cache s) symbol of
        Some p \<Rightarrow> (Inr (Some p), s)
      | None \<Rightarrow>
          (case make_api_request (company_profile api symbol) of
             (response, es) \<Rightarrow>
               let s1 = add_log es s in
               case response of
                 None \<Rightarrow> (Inr None, s1)
               | Some NotJson \<Rightarrow> (Inr None, s1)
               | Some (ErrorMessage _) \<Rightarrow> (Inl KeyError, s1)
               | Some (Json []) \<Rightarrow> (Inr None, s1)
               | Some (Json (item # _)) \<Rightarrow>
                   (case cache_stock symbol None None (Some (profile_of item)) now (stock_cache s1) of
                      Inl _ \<Rightarrow> (Inr None, s1)
                    | Inr c \<Rightarrow> (Inr (Some (profile_of item)), s1\<lparr>stock_cache := c\<rparr>))))"

section \<open>fetch\_undervalued\_stocks.py: process\_stock\<close>

record stock_detail =
  detail_symbol :: string
  detail_company_name :: "string option"
  detail_price :: "real option"
  detail_dcf :: "real option"
  detail_status :: string
  detail_has_data :: bool

text \<open>
  The two percentages computed for the log line and the status of a stock whose price and
  DCF value are both known.
\<close>

definition premium_pct :: "real \<Rightarrow> real \<Rightarrow> real" where
  "premium_pct current_price dcf_value =
     (if current_price > dcf_value
      then round2 (((current_price - dcf_value) / dcf_value) * 100) else 0)"

definition discount_pct :: "real \<Rightarrow> real \<Rightarrow> real" where
  "discount_pct current_price dcf_value =
     (if current_price < dcf_value
      then round2 (((dcf_value - current_price) / dcf_value) * 100) else 0)"

definition valuation_status :: "real \<Rightarrow> real \<Rightarrow> real \<Rightarrow> string" where
  "valuation_status current_price dcf_value OVERVALUED_BUFFER =
     (if current_price < dcf_value then ''UNDERVALUED''
      else if current_price > dcf_value * (1 + OVERVALUED_BUFFER) then ''OVERVALUED (>20%)''
      else ''FAIR'')"

text \<open>
  The index of the first row of a list with the symbol, and the update of the list: the
  row at that index is replaced, or the new row is appended when there is none.
\<close>

fun existing_idx :: "string \<Rightarrow> stock_data list \<Rightarrow> nat option" where
  "existing_idx symbol [] = None"
| "existing_idx symbol (x # xs) =
     (if Symbol x = symbol then Some 0 else map_option Suc (existing_idx symbol xs))"

definition put_stock :: "string \<Rightarrow> stock_data \<Rightarrow> stock_data list \<Rightarrow> stock_data list" where
  "put_stock symbol stock_data xs =
     (case existing_idx symbol xs of
        Some i \<Rightarrow> xs[i := stock_data]
      | None \<Rightarrow> xs @ [stock_data])"

text \<open>The rows built for an undervalued and for a fair stock.\<close>

definition undervalued_row :: "string \<Rightarrow> string \<Rightarrow> real \<Rightarrow> real \<Rightarrow> profile \<Rightarrow> stock_data" where
  "undervalued_row symbol now current_price dcf_value p =
     \<lparr>Symbol = symbol, Company_Name = companyName p,
      Current_Price = round2 current_price, DCF_Price = round2 dcf_value,
      Discount_pct = round2 (((dcf_value - current_price) / dcf_value) * 100),
      Premium_pct = 0, Valuation_Status = ''UNDERVALUED'',
      Sector = sector p, Industry = industry p, Timestamp = now\<rparr>"

definition fair_row :: "string \<Rightarrow> string \<Rightarrow> real \<Rightarrow> real \<Rightarrow> profile \<Rightarrow> stock_data" where
  "fair_row symbol now current_price dcf_value p =
     \<lparr>Symbol = symbol, Company_Name = companyName p,
      Current_Price = round2 current_price, DCF_Price = round2 dcf_value,
      Discount_pct = 0,
      Premium_pct = round2 (((current_price - dcf_value) / dcf_value) * 100),
      Valuation_Status = ''FAIR'',
      Sector = sector p, Industry = industry p, Timestamp = now\<rparr>"

text \<open>
  The end of \<^verbatim>\<open>process_stock\<close>, from \<^verbatim>\<open>if profile:\<close> on: the row of an undervalued or fair
  stock is appended to the result list and put into the cached list, and the stock is
  cached. An exception leaves the state as it is when raised.
\<close>

definition cache_result ::
  "string \<Rightarrow> real \<Rightarrow> real \<Rightarrow> profile option \<Rightarrow> string \<Rightarrow> state \<Rightarrow> py_exception option \<times> state" where
  "cache_result symbol current_price dcf_value p now s =
     (case cache_stock symbol (Some current_price) (Some dcf_value) p now (stock_cache s) of
        Inl e \<Rightarrow> (Some e, s)
      | Inr c \<Rightarrow> (None, s\<lparr>stock_cache := c\<rparr>))"

definition store_result ::
  "string \<Rightarrow> string \<Rightarrow> real \<Rightarrow> real \<Rightarrow> real \<Rightarrow> profile option \<Rightarrow> state
     \<Rightarrow> py_exception option \<times> state" where
  "store_result symbol now current_price dcf_value OVERVALUED_BUFFER profile_opt s =
     (case profile_opt of
        Some p \<Rightarrow>
          if current_price < dcf_value then
            let stock_data = undervalued_row symbol now current_price dcf_value p;
                s1 = s\<lparr>undervalued_stocks := undervalued_stocks s @ [stock_data],
                       undervalued_stocks_cache :=
                         put_stock symbol stock_data (undervalued_stocks_cache s)\<rparr>
            in cache_result symbol current_price dcf_value (Some p) now s1
          else if current_price \<ge> dcf_value
                  \<and> current_price \<le> dcf_value * (1 + OVERVALUED_BUFFER) then
            let stock_data = fair_row symbol now current_price dcf_value p;
                s1 = s\<lparr>fair_stocks := fair_stocks s @ [stock_data]\<rparr>
            in (case stock_cache s1 ''_fair_stocks'' of
                  Some (Entry _) \<Rightarrow> (Some AttributeError, s1)
                | fair \<Rightarrow>
                    let xs = (case fair of Some (Records ys) \<Rightarrow> ys | _ \<Rightarrow> []);
                        s2 = s1\<lparr>stock_cache := (stock_cache s1)
                                 (''_fair_stocks'' \<mapsto> Records (put_stock symbol stock_data xs))\<rparr>
                    in cache_result symbol current_price dcf_value (Some p) now s2)
          else cache_result symbol current_price dcf_value (Some p) now s
      | None \<Rightarrow> cache_result symbol current_price dcf_value None now s)"

text \<open>
  \<^verbatim>\<open>process_stock(stock, use_bulk, dcf_bulk, profiles_bulk, OVERVALUED_BUFFER, ...)\<close>. The
  two bulk dictionaries are lists of pairs, None when the bulk call gave None. The result is
  the stock detail (None for a stock without symbol) or the exception raised, and the
  state.
\<close>

definition bulk_truthy :: "(string \<times> 'a) list option \<Rightarrow> bool" where
  "bulk_truthy d = (case d of None \<Rightarrow> False | Some kvs \<Rightarrow> kvs \<noteq> [])"

definition bulk_get :: "(string \<times> 'a) list option \<Rightarrow> string \<Rightarrow> 'a option" where
  "bulk_get d symbol = (case d of None \<Rightarrow> None | Some kvs \<Rightarrow> map_of kvs symbol)"

definition no_value :: "real option \<Rightarrow> bool" where
  "no_value v = (case v of None \<Rightarrow> True | Some x \<Rightarrow> x \<le> 0)"

text \<open>
  The parts of \<^verbatim>\<open>process_stock\<close>, in the order of the source: the company name shown
  in the log; the DCF value (bulk dictionary, else \<^verbatim>\<open>get_dcf_value\<close>) and the current price
  (the price that came with the DCF value, else \<^verbatim>\<open>get_stock_price\<close>); the detail returned
  early when the DCF value or the price is unknown or not positive; the profile (bulk
  dictionary, else \<^verbatim>\<open>get_company_profile\<close>).
\<close>

definition display_name ::
  "string \<Rightarrow> bool \<Rightarrow> (string \<times> profile) list option \<Rightarrow> state \<Rightarrow> string option" where
  "display_name symbol use_bulk profiles_bulk s =
     (let profile_display =
            (case (if use_bulk \<and> bulk_truthy profiles_bulk then bulk_get profiles_bulk symbol
                   else None) of
               Some p \<Rightarrow> Some p
             | None \<Rightarrow> cached_profile (stock_cache s) symbol)
      in case profile_display of Some p \<Rightarrow> companyName p | None \<Rightarrow> Some symbol)"

definition fetch_values ::
  "fmp_api \<Rightarrow> string \<Rightarrow> string \<Rightarrow> bool \<Rightarrow> (string \<times> real) list option \<Rightarrow> state
     \<Rightarrow> (py_exception + (real option \<times> real option)) \<times> state" where
  "fetch_values api now symbol use_bulk dcf_bulk_dict s =
     (let from_bulk = (if use_bulk \<and> bulk_truthy dcf_bulk_dict then bulk_get dcf_bulk_dict symbol
                       else None)
      in case (case from_bulk of
                 Some d \<Rightarrow> (Inr (Some d, None), s)
               | None \<Rightarrow> get_dcf_value api now symbol s) of
           (Inl e, s1) \<Rightarrow> (Inl e, s1)
         | (Inr (dcf_value, stock_price_from_dcf), s1) \<Rightarrow>
             (case (if truthy stock_price_from_dcf \<and> the stock_price_from_dcf > 0
                    then (Inr stock_price_from_dcf, s1)
                    else get_stock_price api now symbol s1) of
                (Inl e, s2) \<Rightarrow> (Inl e, s2)
              | (Inr current_price, s2) \<Rightarrow> (Inr (dcf_value, current_price), s2)))"

definition without_data ::
  "string \<Rightarrow> string option \<Rightarrow> real option \<Rightarrow> real option \<Rightarrow> stock_detail option" where
  "without_data symbol company_name dcf_value current_price =
     (if no_value dcf_value then
        if no_value current_price then
          Some \<lparr>detail_symbol = symbol, detail_company_name = company_name,
                detail_price = None, detail_dcf = None,
                detail_status = ''DATA_UNAVAILABLE'', detail_has_data = False\<rparr>
        else
          Some \<lparr>detail_symbol = symbol, detail_company_name = company_name,
                detail_price = current_price, detail_dcf = None,
                detail_status = ''NO_DCF_DATA'', detail_has_data = False\<rparr>
      else if no_value current_price then
        Some \<lparr>detail_symbol = symbol, detail_company_name = company_name,
              detail_price = None, detail_dcf = dcf_value,
              detail_status = ''NO_PRICE_DATA'', detail_has_data = False\<rparr>
      else None)"

definition fetch_profile ::
  "fmp_api \<Rightarrow> string \<Rightarrow> string \<Rightarrow> bool \<Rightarrow> (string \<times> profile) list option \<Rightarrow> state
     \<Rightarrow> (py_exception + profile option) \<times> state" where
  "fetch_profile api now symbol use_bulk profiles_bulk s =
     (case (if use_bulk \<and> bulk_truthy profiles_bulk then bulk_get profiles_bulk symbol
            else None) of
        Some p \<Rightarrow> (Inr (Some p), s)
      | None \<Rightarrow> get_company_profile api now symbol s)"

definition process_stock ::
  "fmp_api \<Rightarrow> string \<Rightarrow> string \<Rightarrow> bool \<Rightarrow> (string \<times> real) list option
     \<Rightarrow> (string \<times> profile) list option \<Rightarrow> real \<Rightarrow> state
     \<Rightarrow> (py_exception + stock_detail option) \<times> state" where
  "process_stock api now symbol use_bulk dcf_bulk_dict profiles_bulk OVERVALUED_BUFFER s =
     (if symbol = [] then (Inr None, s)
      else
        let company_name = display_name symbol use_bulk profiles_bulk s
        in case fetch_values api now symbol use_bulk dcf_bulk_dict s of
             (Inl e, s2) \<Rightarrow> (Inl e, s2)
           | (Inr (dcf_value, current_price), s2) \<Rightarrow>
               (case without_data symbol company_name dcf_value current_price of
                  Some stock_detail \<Rightarrow> (Inr (Some stock_detail), s2)
                | None \<Rightarrow>
                    let status = valuation_status (the current_price) (the dcf_value)
                                   OVERVALUED_BUFFER;
                        stock_detail =
                          \<lparr>detail_symbol = symbol, detail_company_name = company_name,
                           detail_price = current_price, detail_dcf = dcf_value,
                           detail_status = status, detail_has_data = True\<rparr>
                    in case fetch_profile api now symbol use_bulk profiles_bulk s2 of
                         (Inl e, s3) \<Rightarrow> (Inl e, s3)
                       | (Inr profile_opt, s3) \<Rightarrow>
                           (case store_result symbol now (the current_price) (the dcf_value)
                                   OVERVALUED_BUFFER profile_opt s3 of
                              (Some e, s4) \<Rightarrow> (Inl e, s4)
                            | (None, s4) \<Rightarrow> (Inr (Some stock_detail), s4))))"

section \<open>fetch\_undervalued\_stocks.py: the run\<close>

text \<open>
  The clock reading is a parameter: \<^verbatim>\<open>clock symbol\<close> is the time written while the symbol
  is handled. The worker threads of a batch are modelled by handling the stocks one after
  the other in list order; the lock makes the updates of the shared lists atomic.
\<close>

definition popular_symbols :: "string list" where
  "popular_symbols =
     [''AAPL'', ''MSFT'', ''GOOGL'', ''AMZN'', ''META'', ''TSLA'', ''NVDA'', ''BRK.B'', ''V'', ''JNJ'',
      ''WMT'', ''JPM'', ''MA'', ''PG'', ''UNH'', ''HD'', ''DIS'', ''BAC'', ''ADBE'', ''NFLX'',
      ''PYPL'', ''CMCSA'', ''KO'', ''PFE'', ''TMO'', ''COST'', ''AVGO'', ''CSCO'', ''PEP'', ''ABT'',
      ''NKE'', ''MRK'', ''T'', ''VZ'', ''CVX'', ''XOM'', ''LLY'', ''ABBV'', ''ACN'', ''DHR'']"

text \<open>
  \<^verbatim>\<open>get_all_stocks()\<close>: the stock list of the server, else the popular symbols. A JSON
  object is returned as it is (None here); slicing it raises later.
\<close>

definition get_all_stocks :: "fmp_api \<Rightarrow> state \<Rightarrow> string list option \<times> state" where
  "get_all_stocks api s =
     (case make_api_request (stock_list api) of
        (response, es) \<Rightarrow>
          let s1 = add_log es s in
          case response of
            Some (Json (stock # stocks)) \<Rightarrow> (Some (stock # stocks), s1)
          | Some (ErrorMessage _) \<Rightarrow> (None, s1)
          | _ \<Rightarrow> (Some popular_symbols, s1))"

text \<open>
  The loop of \<^verbatim>\<open>get_dcf_bulk()\<close> over the objects of the response: a DCF value that is
  neither null nor zero is put into the dictionary under its symbol and cached.
\<close>

fun cache_dcf_items ::
  "(string \<Rightarrow> string) \<Rightarrow> (string \<times> real option) list \<Rightarrow> (string \<times> real) list \<Rightarrow> state
     \<Rightarrow> (py_exception + (string \<times> real) list) \<times> state" where
  "cache_dcf_items clock [] dcf_dict s = (Inr dcf_dict, s)"
| "cache_dcf_items clock ((symbol, dcf_value) # items) dcf_dict s =
     (if symbol \<noteq> [] \<and> truthy dcf_value then
        case cache_stock symbol None dcf_value None (clock symbol) (stock_cache s) of
          Inl e \<Rightarrow> (Inl e, s)
        | Inr c \<Rightarrow>
            cache_dcf_items clock items ((symbol, the dcf_value) # dcf_dict) (s\<lparr>stock_cache := c\<rparr>)
      else cache_dcf_items clock items dcf_dict s)"

definition get_dcf_bulk ::
  "fmp_api \<Rightarrow> (string \<Rightarrow> string) \<Rightarrow> state
     \<Rightarrow> (py_exception + (string \<times> real) list option) \<times> state" where
  "get_dcf_bulk api clock s =
     (case make_api_request (dcf_bulk api) of
        (response, es) \<Rightarrow>
          let s1 = add_log es s in
          case response of
            None \<Rightarrow> (Inr None, s1)
          | Some NotJson \<Rightarrow> (Inr (Some []), s1)
          | Some (ErrorMessage _) \<Rightarrow> (Inl AttributeError, s1)
          | Some (Json data) \<Rightarrow>
              (case cache_dcf_items clock data [] s1 of
                 (Inl e, s2) \<Rightarrow> (Inl e, s2)
               | (Inr dcf_dict, s2) \<Rightarrow> (Inr (Some dcf_dict), s2)))"

fun cache_profile_items ::
  "(string \<Rightarrow> string) \<Rightarrow> profile_item list \<Rightarrow> (string \<times> profile) list \<Rightarrow> state
     \<Rightarrow> (py_exception + (string \<times> profile) list) \<times> state" where
  "cache_profile_items clock [] profiles_dict s = (Inr profiles_dict, s)"
| "cache_profile_items clock (item # items) profiles_dict s =
     (let symbol = item_symbol item in
      if symbol \<noteq> [] then
        case cache_stock symbol None None (Some (profile_of item)) (clock symbol) (stock_cache s) of
          Inl e \<Rightarrow> (Inl e, s)
        | Inr c \<Rightarrow>
            cache_profile_items clock items ((symbol, profile_of item) # profiles_dict)
              (s\<lparr>stock_cache := c\<rparr>)
      else cache_profile_items clock items profiles_dict s)"

text \<open>
  One round of the \<^verbatim>\<open>while True\<close> loop of \<^verbatim>\<open>get_profiles_bulk()\<close>: the loop ends (left)
  or goes on with the next part (right). The loop goes on as long as the server answers
  with 1000 objects or more, so it need not end: a run that does not end has no result
  (None).
\<close>

definition profiles_round ::
  "fmp_api \<Rightarrow> (string \<Rightarrow> string) \<Rightarrow> nat \<Rightarrow> (string \<times> profile) list \<Rightarrow> state
     \<Rightarrow> ((py_exception + (string \<times> profile) list) \<times> state)
         + ((string \<times> profile) list \<times> state)" where
  "profiles_round api clock part profiles_dict s =
     (case make_api_request (profile_bulk api part) of
        (response, es) \<Rightarrow>
          let s1 = add_log es s in
          case response of
            None \<Rightarrow> Inl (Inr profiles_dict, s1)
          | Some NotJson \<Rightarrow> Inl (Inr profiles_dict, s1)
          | Some (ErrorMessage _) \<Rightarrow> Inl (Inl AttributeError, s1)
          | Some (Json []) \<Rightarrow> Inl (Inr profiles_dict, s1)
          | Some (Json data) \<Rightarrow>
              (case cache_profile_items clock data profiles_dict s1 of
                 (Inl e, s2) \<Rightarrow> Inl (Inl e, s2)
               | (Inr d, s2) \<Rightarrow> if length data < 1000 then Inl (Inr d, s2) else Inr (d, s2)))"

partial_function (option) profiles_loop ::
  "fmp_api \<Rightarrow> (string \<Rightarrow> string) \<Rightarrow> nat \<Rightarrow> (string \<times> profile) list \<Rightarrow> state
     \<Rightarrow> ((py_exception + (string \<times> profile) list) \<times> state) option" where
  "profiles_loop api clock part profiles_dict s =
     (case profiles_round api clock part profiles_dict s of
        Inl result \<Rightarrow> Some result
      | Inr (d, s1) \<Rightarrow> profiles_loop api clock (part + 1) d s1)"

definition get_profiles_bulk ::
  "fmp_api \<Rightarrow> (string \<Rightarrow> string) \<Rightarrow> state
     \<Rightarrow> ((py_exception + (string \<times> profile) list option) \<times> state) option" where
  "get_profiles_bulk api clock s =
     (case profiles_loop api clock 0 [] s of
        None \<Rightarrow> None
      | Some (Inl e, s1) \<Rightarrow> Some (Inl e, s1)
      | Some (Inr profiles_dict, s1) \<Rightarrow>
          Some (Inr (if profiles_dict \<noteq> [] then Some profiles_dict else None), s1))"

text \<open>
  The loop over the stocks: a stock without symbol is skipped, a stock detail is kept, an
  exception of \<^verbatim>\<open>process_stock\<close> is logged and the stock counted as skipped.
\<close>

record run_result =
  final :: state
  stocks_details :: "stock_detail list"
  skipped :: nat

fun process_stocks ::
  "fmp_api \<Rightarrow> (string \<Rightarrow> string) \<Rightarrow> bool \<Rightarrow> (string \<times> real) list option
     \<Rightarrow> (string \<times> profile) list option \<Rightarrow> real \<Rightarrow> string list \<Rightarrow> run_result \<Rightarrow> run_result" where
  "process_stocks api clock use_bulk dcf_bulk_dict profiles_bulk OVERVALUED_BUFFER [] r = r"
| "process_stocks api clock use_bulk dcf_bulk_dict profiles_bulk OVERVALUED_BUFFER (symbol # stocks) r =
     (case process_stock api (clock symbol) symbol use_bulk dcf_bulk_dict profiles_bulk
             OVERVALUED_BUFFER (final r) of
        (Inl e, s) \<Rightarrow>
          process_stocks api clock use_bulk dcf_bulk_dict profiles_bulk OVERVALUED_BUFFER stocks
            (r\<lparr>final := add_log [ErrorProcessingStock symbol e] s, skipped := skipped r + 1\<rparr>)
      | (Inr None, s) \<Rightarrow>
          process_stocks api clock use_bulk dcf_bulk_dict profiles_bulk OVERVALUED_BUFFER stocks
            (r\<lparr>final := s, skipped := skipped r + 1\<rparr>)
      | (Inr (Some stock_detail), s) \<Rightarrow>
          process_stocks api clock use_bulk dcf_bulk_dict profiles_bulk OVERVALUED_BUFFER stocks
            (r\<lparr>final := s, stocks_details := stocks_details r @ [stock_detail]\<rparr>))"

text \<open>
  \<^verbatim>\<open>find_undervalued_stocks()\<close>: the result lists start empty; the caches are those of the
  state. An exception of a bulk call, or of slicing a stock list that is a JSON object,
  ends the function. The CSV file written from the result lists is not modelled.
\<close>

definition find_undervalued_stocks ::
  "fmp_api \<Rightarrow> (string \<Rightarrow> string) \<Rightarrow> state \<Rightarrow> ((py_exception + run_result) \<times> state) option" where
  "find_undervalued_stocks api clock s0 =
     (case get_all_stocks api s0 of
        (all_stocks, s1) \<Rightarrow>
          (case get_dcf_bulk api clock s1 of
             (Inl e, s2) \<Rightarrow> Some (Inl e, s2)
           | (Inr dcf_bulk_dict, s2) \<Rightarrow>
               (case get_profiles_bulk api clock s2 of
                  None \<Rightarrow> None
                | Some (Inl e, s3) \<Rightarrow> Some (Inl e, s3)
                | Some (Inr profiles_bulk, s3) \<Rightarrow>
                    let use_bulk = (dcf_bulk_dict \<noteq> None);
                        s4 = s3\<lparr>undervalued_stocks := [], fair_stocks := []\<rparr>
                    in case all_stocks of
                         None \<Rightarrow> Some (Inl TypeError, s4)
                       | Some stocks \<Rightarrow>
                           let r = process_stocks api clock use_bulk dcf_bulk_dict profiles_bulk
                                     (20 / 100) stocks
                                     \<lparr>final = s4, stocks_details = [], skipped = 0\<rparr>
                           in Some (Inr r, final r))))"

text \<open>
  \<^verbatim>\<open>validate_api_key()\<close>: False exactly when the test request is answered with 401 or 403.
\<close>

definition validate_api_key :: "fmp_api \<Rightarrow> bool \<times> event list" where
  "validate_api_key api =
     (case validation api of
        Http status_code _ \<Rightarrow>
          if status_code = 200 then (True, [])
          else if status_code = 401 \<or> status_code = 403 then (False, [ValidationFailed status_code])
          else (True, [ValidationWarning status_code])
      | _ \<Rightarrow> (True, [ValidationException]))"

text \<open>
  The script: with the key of the environment (None when not set) it checks the key,
  validates it and runs \<^verbatim>\<open>find_undervalued_stocks\<close>, whose exceptions it logs.
\<close>

datatype fetch_end =
    KeyNotFound
  | KeyTooShort
  | KeyRejected
  | RunFailed py_exception
  | RunFinished

record fetch_result =
  run_ending :: fetch_end
  handled :: "stock_detail list"
  state_after :: state

definition fetch_main ::
  "string option \<Rightarrow> fmp_api \<Rightarrow> (string \<Rightarrow> string) \<Rightarrow> state \<Rightarrow> fetch_result option" where
  "fetch_main API_KEY api clock s =
     (case API_KEY of
        None \<Rightarrow> Some \<lparr>run_ending = KeyNotFound, handled = [], state_after = s\<rparr>
      | Some k \<Rightarrow>
          if strip k = [] then Some \<lparr>run_ending = KeyNotFound, handled = [], state_after = s\<rparr>
          else if length (strip k) < 10
          then Some \<lparr>run_ending = KeyTooShort, handled = [], state_after = s\<rparr>
          else
            case validate_api_key api of
              (False, es) \<Rightarrow>
                Some \<lparr>run_ending = KeyRejected, handled = [], state_after = add_log es s\<rparr>
            | (True, es) \<Rightarrow>
                (case find_undervalued_stocks api clock (add_log es s) of
                   None \<Rightarrow> None
                 | Some (Inl e, s1) \<Rightarrow>
                     Some \<lparr>run_ending = RunFailed e, handled = [],
                           state_after = add_log [UnexpectedError e] s1\<rparr>
                 | Some (Inr r, s1) \<Rightarrow>
                     Some \<lparr>run_ending = RunFinished, handled = stocks_details r, state_after = s1\<rparr>))"

text \<open>
  The state after \<^verbatim>\<open>load_cache()\<close> and \<^verbatim>\<open>load_undervalued_cache()\<close> when there is no cache
  file.
\<close>

definition initial_state :: state where
  "initial_state =
     \<lparr>stock_cache = [''_undervalued_stocks'' \<mapsto> Records [], ''_fair_stocks'' \<mapsto> Records []],
      undervalued_stocks_cache = [], undervalued_stocks = [], fair_stocks = [], logged = []\<rparr>"

section \<open>An example server\<close>

text \<open>
  A server that lists two stocks, has no bulk data, answers the DCF request for \<^verbatim>\<open>AAA\<close>
  and every quote request with 401, and has a DCF value of 100 and a stock price of 90 for
  \<^verbatim>\<open>BBB\<close>.
\<close>

definition example_api :: fmp_api where
  "example_api =
     \<lparr>stock_list = Http 200 (Json [''AAA'', ''BBB'']),
      dcf_bulk = Http 500 NotJson,
      profile_bulk = (\<lambda>part. Http 500 NotJson),
      discounted_cash_flow = (\<lambda>symbol. if symbol = ''AAA'' then Http 401 NotJson
                                        else Http 200 (Json [(Some 100, Some 90)])),
      quote = (\<lambda>symbol. Http 401 NotJson),
      company_profile = (\<lambda>symbol. Http 200 (Json [\<lparr>item_symbol = symbol,
         item_sector = Val ''Technology'', item_industry = Absent,
         item_companyName = Val ''Beta Inc''\<rparr>])),
      validation = Http 200 NotJson\<rparr>"

definition example_clock :: "string \<Rightarrow> string" where
  "example_clock symbol = ''2026-01-01T00:00:00''"

section \<open>Deduplication keeps the first row of every key\<close>

lemma drop_duplicates_from_filter:
  "filter (\<lambda>r. cell_of r c = k) (drop_duplicates_from seen c rs) =
     (if k \<in> set seen then [] else take 1 (filter (\<lambda>r. cell_of r c = k) rs))"
proof (induction rs arbitrary: seen)
  case Nil
  show ?case by simp
next
  case (Cons r rs)
  show ?case
  proof (cases "cell_of r c \<in> set seen")
    case True
    then show ?thesis using Cons.IH [of seen] by auto
  next
    case False
    then show ?thesis using Cons.IH [of "cell_of r c # seen"] by auto
  qed
qed

lemma drop_duplicates_from_subseq: "subseq (drop_duplicates_from seen c rs) rs"
  by (induction rs arbitrary: seen) auto

lemma drop_duplicates_from_keys:
  "cell_of r c \<notin> set seen" if "r \<in> set (drop_duplicates_from seen c rs)"
  using that by (induction rs arbitrary: seen) (fastforce split: if_splits)+

lemma drop_duplicates_from_seen_more:
  "set seen \<subseteq> set seen' \<Longrightarrow>
   drop_duplicates_from seen' c (drop_duplicates_from seen c rs) = drop_duplicates_from seen' c rs"
proof (induction rs arbitrary: seen seen')
  case Nil
  show ?case by simp
next
  case (Cons r rs)
  show ?case
  proof (cases "cell_of r c \<in> set seen")
    case True
    with Cons.prems have "cell_of r c \<in> set seen'" by auto
    with True show ?thesis using Cons.IH [OF Cons.prems] by simp
  next
    case False
    have sub: "set (cell_of r c # seen) \<subseteq> set (cell_of r c # seen')"
      using Cons.prems by auto
    have sub': "set (cell_of r c # seen) \<subseteq> set seen'" if "cell_of r c \<in> set seen'"
      using Cons.prems that by auto
    show ?thesis
    proof (cases "cell_of r c \<in> set seen'")
      case True
      have "drop_duplicates_from seen' c (drop_duplicates_from (cell_of r c # seen) c rs)
              = drop_duplicates_from seen' c rs"
        using Cons.IH [OF sub' [OF True]] .
      with False True show ?thesis by simp
    next
      case nin: False
      with False show ?thesis using Cons.IH [OF sub] by simp
    qed
  qed
qed

lemma drop_duplicates_from_length:
  "length (drop_duplicates_from seen c rs) + length (filter id (duplicated_from seen c rs)) = length rs"
  by (induction rs arbitrary: seen) auto

lemma drop_duplicates_from_no_duplicates:
  "length (filter id (duplicated_from seen c rs)) = 0 \<Longrightarrow> drop_duplicates_from seen c rs = rs"
  by (induction rs arbitrary: seen) (auto split: if_splits)

section \<open>Cells of updated rows\<close>

lemma cell_of_set_cell_same: "cell_of (set_cell r c v) c = v"
  by (induction r c v rule: set_cell.induct) (simp_all add: cell_of_def)

lemma cell_of_set_cell_other: "c' \<noteq> c \<Longrightarrow> cell_of (set_cell r c v) c' = cell_of r c'"
  by (induction r c v rule: set_cell.induct) (simp_all add: cell_of_def)

lemma cell_of_del_cell_other: "c' \<noteq> c \<Longrightarrow> cell_of (del_cell r c) c' = cell_of r c'"
  by (induction r) (auto simp: cell_of_def del_cell_def)

lemma cell_of_fill_sector: "c \<noteq> ''Sector'' \<Longrightarrow> cell_of (fill_sector r) c = cell_of r c"
  by (simp add: fill_sector_def cell_of_set_cell_other)

lemma sector_of_fill_sector: "cell_of (fill_sector r) ''Sector'' \<noteq> NaN"
  by (simp add: fill_sector_def cell_of_set_cell_same)

lemma sector_unknown: "cell_of r ''Sector'' = NaN \<Longrightarrow> cell_of (fill_sector r) ''Sector'' = Str ''Unknown''"
  by (simp add: fill_sector_def cell_of_set_cell_same)

section \<open>What remove\_duplicates returns\<close>

lemma drop_duplicates_idem: "drop_duplicates c (drop_duplicates c rs) = drop_duplicates c rs"
  unfolding drop_duplicates_def by (rule drop_duplicates_from_seen_more) simp

lemma no_duplicates_left:
  "length (filter id (duplicated c (drop_duplicates c rs))) = 0"
proof -
  have "length (drop_duplicates c (drop_duplicates c rs))
          + length (filter id (duplicated c (drop_duplicates c rs)))
        = length (drop_duplicates c rs)"
    unfolding drop_duplicates_def duplicated_def by (rule drop_duplicates_from_length)
  then show ?thesis by (simp add: drop_duplicates_idem)
qed

lemma drop_duplicates_unchanged:
  "length (filter id (duplicated c rs)) = 0 \<Longrightarrow> drop_duplicates c rs = rs"
  unfolding duplicated_def drop_duplicates_def by (rule drop_duplicates_from_no_duplicates)

lemma remove_duplicates_Inr:
  assumes "remove_duplicates (Some T) = Inr (T', saved)"
  shows "''Symbol'' \<in> set (columns T)"
    and "T' = T\<lparr>rows := drop_duplicates ''Symbol'' (rows T)\<rparr>"
    and "saved = (if length (filter id (duplicated ''Symbol'' (rows T))) = 0 then None else Some T')"
proof -
  show c: "''Symbol'' \<in> set (columns T)"
    using assms by (auto simp: remove_duplicates_def split: if_splits)
  show "T' = T\<lparr>rows := drop_duplicates ''Symbol'' (rows T)\<rparr>"
    using assms c
    by (cases "length (filter id (duplicated ''Symbol'' (rows T))) = 0")
      (auto simp: remove_duplicates_def Let_def drop_duplicates_unchanged split: if_splits)
  show "saved = (if length (filter id (duplicated ''Symbol'' (rows T))) = 0 then None else Some T')"
    using assms c by (auto simp: remove_duplicates_def Let_def split: if_splits)
qed

lemma remove_duplicates_first_rows:
  assumes "remove_duplicates (Some T) = Inr (T', saved)"
  shows "columns T' = columns T"
    and "subseq (rows T') (rows T)"
    and "filter (\<lambda>r. cell_of r ''Symbol'' = k) (rows T')
           = take 1 (filter (\<lambda>r. cell_of r ''Symbol'' = k) (rows T))"
    and "remove_duplicates (Some T') = Inr (T', None)"
    and "length (rows T') \<le> length (rows T)"
proof -
  note r = remove_duplicates_Inr [OF assms]
  show "columns T' = columns T" by (simp add: r(2))
  show sub: "subseq (rows T') (rows T)"
    by (simp add: r(2) drop_duplicates_def drop_duplicates_from_subseq)
  show "filter (\<lambda>r. cell_of r ''Symbol'' = k) (rows T')
           = take 1 (filter (\<lambda>r. cell_of r ''Symbol'' = k) (rows T))"
    by (simp add: r(2) drop_duplicates_def drop_duplicates_from_filter)
  have "length (filter id (duplicated ''Symbol'' (rows T'))) = 0"
    by (simp add: r(2) no_duplicates_left)
  moreover have "''Symbol'' \<in> set (columns T')" using r(1) by (simp add: r(2))
  ultimately show "remove_duplicates (Some T') = Inr (T', None)"
    by (simp add: remove_duplicates_def)
  show "length (rows T') \<le> length (rows T)"
    using sub by (rule list_emb_length)
qed

lemma remove_duplicates_error:
  "remove_duplicates (Some df) = Inl e \<longleftrightarrow>
     (''Symbol'' \<notin> set (columns df) \<and> e = MissingColumn ''Symbol'')
     \<or> (''Symbol'' \<in> set (columns df) \<and> length (filter id (duplicated ''Symbol'' (rows df))) \<noteq> 0
          \<and> \<not> sortable (duplicate_values ''Symbol'' (rows df)) \<and> e = ProcessingError)"
  by (auto simp: remove_duplicates_def Let_def)

text \<open>
  Claim C2 at a table in which the symbol \<^verbatim>\<open>A\<close> and the missing symbol are both
  duplicated: the loop that reports the symbols with duplicates sorts a text and a missing
  value, \<^verbatim>\<open>remove_duplicates\<close> ends with the processing error and nothing is returned or
  saved, so no first row is kept. \<^verbatim>\<open>filter_usd_stocks\<close> ends in the same way at the same
  rows with the currency USD.
\<close>

theorem remove_duplicates_mixed_duplicates:
  "remove_duplicates (Some \<lparr>columns = [''Symbol'', ''Company Name''],
      rows = [[(''Symbol'', Str ''A''), (''Company Name'', Str ''Alpha'')],
              [(''Symbol'', Str ''A''), (''Company Name'', Str ''Alpha'')],
              [(''Symbol'', NaN), (''Company Name'', Str ''Nanoco'')],
              [(''Symbol'', NaN), (''Company Name'', Str ''Nanoco'')]]\<rparr>)
     = Inl ProcessingError
   \<and> filter_usd_stocks (Some \<lparr>columns = [''Symbol'', ''Currency''],
      rows = [[(''Symbol'', Str ''A''), (''Currency'', Str ''USD'')],
              [(''Symbol'', Str ''A''), (''Currency'', Str ''USD'')],
              [(''Symbol'', NaN), (''Currency'', Str ''USD'')],
              [(''Symbol'', NaN), (''Currency'', Str ''USD'')]]\<rparr>)
     = Inl ProcessingError"
  by (simp add: remove_duplicates_def filter_usd_stocks_def dedup_symbols_def duplicated_def
      drop_duplicates_def duplicate_values_def unique_def sortable_def column_def cell_of_def
      is_Str_def usd_filter_def usd_currency_def usd_variations_def isin_def
      str_accessor_ok_def object_dtype_def Let_def)

section \<open>The currency filter ignores case\<close>

lemma lower_usd: "lower ''USD'' = ''usd''"
  by (simp add: lower_def lower_char_def)

lemma str_contains_self: "str_contains s s"
  by (cases s) simp_all

lemma usd_currency_nocase: "lower s = ''usd'' \<Longrightarrow> usd_currency (Str s)"
  by (simp add: usd_currency_def cell_contains_def contains_nocase_def lower_usd str_contains_self)

lemma us_country_is_Str: "us_country c \<Longrightarrow> is_Str c"
  by (cases c) (simp_all add: us_country_def isin_def cell_contains_def is_Str_def)

lemma usd_currency_is_Str: "usd_currency c \<Longrightarrow> is_Str c"
  by (cases c) (simp_all add: usd_currency_def isin_def cell_contains_def is_Str_def)

section \<open>Tables without duplicated symbols\<close>

lemma duplicated_from_distinct:
  "distinct (column c rs) \<Longrightarrow> set seen \<inter> set (column c rs) = {} \<Longrightarrow>
   filter id (duplicated_from seen c rs) = []"
proof (induction rs arbitrary: seen)
  case Nil
  then show ?case by simp
next
  case (Cons r rs)
  from Cons.prems have nin: "cell_of r c \<notin> set seen" by (auto simp: column_def)
  have "set (cell_of r c # seen) \<inter> set (column c rs) = {}"
    using Cons.prems by (auto simp: column_def)
  moreover have "distinct (column c rs)" using Cons.prems by (simp add: column_def)
  ultimately have "filter id (duplicated_from (cell_of r c # seen) c rs) = []"
    by (rule Cons.IH [rotated])
  with nin show ?case unfolding id_def by simp
qed

lemma distinct_column_filter: "distinct (column c rs) \<Longrightarrow> distinct (column c (filter P rs))"
  unfolding column_def by (rule distinct_map_filter)

lemma dedup_symbols_distinct:
  "distinct (column ''Symbol'' rs) \<Longrightarrow> dedup_symbols rs = Inr rs"
  by (simp add: dedup_symbols_def duplicated_def duplicated_from_distinct)

lemma sort_values_desc_numeric:
  assumes "\<forall>r \<in> set rs. \<not> is_Str (cell_of r c)"
  shows "\<exists>rs'. sort_values_desc c rs = Some rs' \<and> set rs' = set rs"
proof -
  have "\<not> (\<exists>r \<in> set (filter (\<lambda>r. cell_of r c \<noteq> NaN) rs). is_Str (cell_of r c))"
    using assms by auto
  then show ?thesis by (auto simp: sort_values_desc_def Let_def)
qed

section \<open>Changing the spelling of the currency\<close>

lemma insort_key_map:
  assumes "\<And>x. f (g x) = f' x"
  shows "insort_key f (g x) (map g ys) = map g (insort_key f' x ys)"
  by (induction ys) (simp_all add: assms)

lemma sort_key_map:
  assumes "\<And>x. f (g x) = f' x"
  shows "sort_key f (map g xs) = map g (sort_key f' xs)"
  by (induction xs) (simp_all add: insort_key_map [of f g f', OF assms])

lemma duplicated_from_map:
  assumes "\<And>r. cell_of (g r) c = cell_of r c"
  shows "duplicated_from seen c (map g rs) = duplicated_from seen c rs"
  by (induction rs arbitrary: seen) (simp_all add: assms)

lemma drop_duplicates_from_map:
  assumes "\<And>r. cell_of (g r) c = cell_of r c"
  shows "drop_duplicates_from seen c (map g rs) = map g (drop_duplicates_from seen c rs)"
  by (induction rs arbitrary: seen) (simp_all add: assms)

lemma column_map:
  assumes "\<And>r. cell_of (g r) c = cell_of r c"
  shows "column c (map g rs) = column c rs"
  by (simp add: column_def assms)

lemma dedup_symbols_map:
  assumes "\<And>r. cell_of (g r) ''Symbol'' = cell_of r ''Symbol''"
  shows "dedup_symbols (map g rs) = map_sum id (map g) (dedup_symbols rs)"
  by (simp add: dedup_symbols_def duplicated_def drop_duplicates_def duplicate_values_def Let_def
      duplicated_from_map [of g, OF assms] drop_duplicates_from_map [of g, OF assms]
      column_map [of g, OF assms])

lemma sort_values_desc_map:
  assumes "\<And>r. cell_of (g r) c = cell_of r c"
  shows "sort_values_desc c (map g rs) = map_option (map g) (sort_values_desc c rs)"
proof -
  have f: "filter (\<lambda>r. P (cell_of r c)) (map g rs) = map g (filter (\<lambda>r. P (cell_of r c)) rs)" for P
    by (simp add: filter_map o_def assms)
  have nk: "- num_key c (g x) = - num_key c x" for x by (simp add: num_key_def assms)
  have sk: "str_key c (g x) = str_key c x" for x by (simp add: str_key_def assms)
  have s1: "sort_key (\<lambda>r. - num_key c r) (map g xs) = map g (sort_key (\<lambda>r. - num_key c r) xs)" for xs
    by (rule sort_key_map) (rule nk)
  have s2: "sort_key (str_key c) (map g xs) = map g (sort_key (str_key c) xs)" for xs
    by (rule sort_key_map) (rule sk)
  show ?thesis
    unfolding sort_values_desc_def Let_def
      f [of "\<lambda>v. v \<noteq> NaN"] f [of "\<lambda>v. v = NaN"]
    by (auto simp: assms s1 s2 rev_map)
qed

lemma accessor_map:
  assumes "\<And>r. is_Str (cell_of (g r) c) = is_Str (cell_of r c)"
    and "\<And>r. (cell_of (g r) c = NaN) = (cell_of r c = NaN)"
  shows "object_dtype (column c (map g rs)) = object_dtype (column c rs)"
    and "str_accessor_ok b (column c (map g rs)) = str_accessor_ok b (column c rs)"
  by (auto simp: object_dtype_def str_accessor_ok_def column_def assms)

lemma filter_usd_stocks_map:
  assumes other: "\<And>r c. c \<noteq> ''Currency'' \<Longrightarrow> cell_of (g r) c = cell_of r c"
    and cur: "\<And>r. cell_of (g r) ''Currency'' = cell_of r ''Currency''
                \<or> (cell_of r ''Currency'' = Str ''usd'' \<and> cell_of (g r) ''Currency'' = Str ''USD'')"
  shows "filter_usd_stocks (Some (T\<lparr>rows := map g (rows T)\<rparr>))
           = map_sum id (\<lambda>T'. T'\<lparr>rows := map g (rows T')\<rparr>) (filter_usd_stocks (Some T))"
proof -
  have a: "usd_currency (Str ''usd'')" "usd_currency (Str ''USD'')"
    by (rule usd_currency_nocase, simp add: lower_def lower_char_def)
      (rule usd_currency_nocase, rule lower_usd)
  have usd: "usd_currency (cell_of (g r) ''Currency'') = usd_currency (cell_of r ''Currency'')" for r
    using cur [of r] a by auto
  have str: "is_Str (cell_of (g r) ''Currency'') = is_Str (cell_of r ''Currency'')" for r
    using cur [of r] by (auto simp: is_Str_def)
  have nan: "(cell_of (g r) ''Currency'' = NaN) = (cell_of r ''Currency'' = NaN)" for r
    using cur [of r] by auto
  have country: "cell_of (g r) ''Country'' = cell_of r ''Country''" for r
    by (rule other) simp
  have symbol: "cell_of (g r) ''Symbol'' = cell_of r ''Symbol''" for r
    by (rule other) simp
  have discount: "cell_of (g r) ''Discount %'' = cell_of r ''Discount %''" for r
    by (rule other) simp
  have f1: "usd_filter (map g rs) = map g (usd_filter rs)" for rs
    by (simp add: usd_filter_def filter_map o_def usd)
  have f2: "us_filter (map g rs) = map g (us_filter rs)" for rs
    by (simp add: us_filter_def filter_map o_def country)
  note acc = accessor_map [of g "''Currency''", OF str nan]
  note cc = column_map [of g "''Country''", OF country]
  note dd = dedup_symbols_map [of g, OF symbol]
  note sv = sort_values_desc_map [of g "''Discount %''", OF discount]
  show ?thesis
    by (simp add: filter_usd_stocks_def Let_def f1 f2 acc cc dd sv
        split: sum.splits option.splits)
qed

lemma filter_usd_stocks_retains:
  assumes cols: "''Currency'' \<in> set (columns T)" "''Symbol'' \<in> set (columns T)"
    and dist: "distinct (column ''Symbol'' (rows T))"
    and disc: "\<forall>r' \<in> set (rows T). \<not> is_Str (cell_of r' ''Discount %'')"
    and row: "r \<in> set (rows T)"
    and cur: "cell_of r ''Currency'' = Str s" and s: "lower s = ''usd''"
    and us: "''Country'' \<in> set (columns T) \<longrightarrow> us_country (cell_of r ''Country'')"
  shows "\<exists>T'. filter_usd_stocks (Some T) = Inr T' \<and> r \<in> set (rows T') \<and> columns T' = columns T"
proof -
  let ?usd = "usd_filter (rows T)"
  let ?F = "if ''Country'' \<in> set (columns T) then us_filter ?usd else ?usd"
  have usd: "usd_currency (cell_of r ''Currency'')"
    unfolding cur using s by (rule usd_currency_nocase)
  have r_usd: "r \<in> set ?usd" using row usd by (simp add: usd_filter_def)
  have acc1: "str_accessor_ok (object_dtype (column ''Currency'' (rows T))) (column ''Currency'' (rows T))"
    using row cur by (force simp: str_accessor_ok_def object_dtype_def column_def is_Str_def)
  have ne1: "length ?usd \<noteq> 0" using r_usd by auto
  have r_F: "r \<in> set ?F" using r_usd us by (simp add: us_filter_def)
  have acc2: "str_accessor_ok (object_dtype (column ''Country'' (rows T))) (column ''Country'' ?usd)"
    if "''Country'' \<in> set (columns T)"
  proof -
    from that us have "is_Str (cell_of r ''Country'')" by (simp add: us_country_is_Str)
    with row r_usd show ?thesis
      by (force simp: str_accessor_ok_def object_dtype_def column_def)
  qed
  have ne2: "length (us_filter ?usd) \<noteq> 0" if "''Country'' \<in> set (columns T)"
    using r_F that by auto
  have "distinct (column ''Symbol'' ?F)"
    using dist by (simp add: usd_filter_def us_filter_def distinct_column_filter)
  then have dd: "dedup_symbols ?F = Inr ?F" by (rule dedup_symbols_distinct)
  have sub: "set ?F \<subseteq> set (rows T)" by (auto simp: usd_filter_def us_filter_def)
  with disc have "\<forall>r' \<in> set ?F. \<not> is_Str (cell_of r' ''Discount %'')" by blast
  from sort_values_desc_numeric [OF this] obtain rs' where
    sv: "sort_values_desc ''Discount %'' ?F = Some rs'" and rs': "set rs' = set ?F" by blast
  have "filter_usd_stocks (Some T) =
          Inr (T\<lparr>rows := (if ''Discount %'' \<in> set (columns T) then rs' else ?F)\<rparr>)"
  proof (cases "''Country'' \<in> set (columns T)")
    case True
    with dd sv have "dedup_symbols (us_filter ?usd) = Inr (us_filter ?usd)"
      and "sort_values_desc ''Discount %'' (us_filter ?usd) = Some rs'" by simp_all
    with cols acc1 ne1 acc2 [OF True] ne2 [OF True] True show ?thesis
      by (simp add: filter_usd_stocks_def Let_def)
  next
    case False
    with dd sv have "dedup_symbols ?usd = Inr ?usd"
      and "sort_values_desc ''Discount %'' ?usd = Some rs'" by simp_all
    with cols acc1 ne1 False show ?thesis
      by (simp add: filter_usd_stocks_def Let_def)
  qed
  moreover have "r \<in> set (if ''Discount %'' \<in> set (columns T) then rs' else ?F)"
    using r_F rs' by (simp split: if_splits)
  ultimately show ?thesis by simp
qed


text \<open>
  Claim C7. \<^verbatim>\<open>filter_usd_stocks\<close> does not depend on the case in which the currency
  \<^verbatim>\<open>usd\<close> is spelled. A row whose Currency is \<^verbatim>\<open>usd\<close>, \<^verbatim>\<open>USD\<close> or any other spelling of the
  three letters passes the currency mask, and the stage returns a table that holds the row
  whenever the later steps keep it: the Country, if the table has that column, is a US
  country, the symbols of the table are distinct, and no Discount is a text. Changing
  the Currency of rows from \<^verbatim>\<open>usd\<close> to \<^verbatim>\<open>USD\<close> and nothing else changes the result of the
  stage by that change only: the stage fails in the same way, or returns the changed rows
  of what it returned before, so a row spelled \<^verbatim>\<open>usd\<close> is in the result exactly when the
  same row spelled \<^verbatim>\<open>USD\<close> is. (The variations \<^verbatim>\<open>US$\<close> and \<^verbatim>\<open>$\<close> of the list are matched as
  written.)
\<close>

theorem filter_usd_stocks_case_insensitive:
  "(''Currency'' \<in> set (columns T) \<and> ''Symbol'' \<in> set (columns T)
      \<and> distinct (column ''Symbol'' (rows T))
      \<and> (\<forall>r' \<in> set (rows T). \<not> is_Str (cell_of r' ''Discount %''))
      \<and> r \<in> set (rows T) \<and> cell_of r ''Currency'' = Str s \<and> lower s = ''usd''
      \<and> (''Country'' \<in> set (columns T) \<longrightarrow> us_country (cell_of r ''Country''))
    \<longrightarrow> (\<exists>T'. filter_usd_stocks (Some T) = Inr T' \<and> r \<in> set (rows T') \<and> columns T' = columns T))
   \<and> ((\<forall>r c. c \<noteq> ''Currency'' \<longrightarrow> cell_of (g r) c = cell_of r c)
       \<and> (\<forall>r. cell_of (g r) ''Currency'' = cell_of r ''Currency''
                \<or> (cell_of r ''Currency'' = Str ''usd'' \<and> cell_of (g r) ''Currency'' = Str ''USD''))
    \<longrightarrow> filter_usd_stocks (Some (T\<lparr>rows := map g (rows T)\<rparr>))
          = map_sum id (\<lambda>T'. T'\<lparr>rows := map g (rows T')\<rparr>) (filter_usd_stocks (Some T)))
   \<and> (cell_of r ''Currency'' = Str s \<and> lower s = ''usd''
    \<longrightarrow> (r \<in> set (usd_filter rs) \<longleftrightarrow> r \<in> set rs))
   \<and> usd_currency (Str ''usd'') \<and> usd_currency (Str ''USD'')"
proof -
  have a: "usd_currency (Str ''usd'')" "usd_currency (Str ''USD'')"
    by (rule usd_currency_nocase, simp add: lower_def lower_char_def)
      (rule usd_currency_nocase, rule lower_usd)
  have mask: "cell_of r ''Currency'' = Str s \<and> lower s = ''usd''
      \<longrightarrow> (r \<in> set (usd_filter rs) \<longleftrightarrow> r \<in> set rs)"
    by (auto simp: usd_filter_def usd_currency_nocase)
  have keep: "''Currency'' \<in> set (columns T) \<and> ''Symbol'' \<in> set (columns T)
      \<and> distinct (column ''Symbol'' (rows T))
      \<and> (\<forall>r' \<in> set (rows T). \<not> is_Str (cell_of r' ''Discount %''))
      \<and> r \<in> set (rows T) \<and> cell_of r ''Currency'' = Str s \<and> lower s = ''usd''
      \<and> (''Country'' \<in> set (columns T) \<longrightarrow> us_country (cell_of r ''Country''))
    \<longrightarrow> (\<exists>T'. filter_usd_stocks (Some T) = Inr T' \<and> r \<in> set (rows T') \<and> columns T' = columns T)"
    using filter_usd_stocks_retains [of T r s] by blast
  have change: "(\<forall>r c. c \<noteq> ''Currency'' \<longrightarrow> cell_of (g r) c = cell_of r c)
       \<and> (\<forall>r. cell_of (g r) ''Currency'' = cell_of r ''Currency''
                \<or> (cell_of r ''Currency'' = Str ''usd'' \<and> cell_of (g r) ''Currency'' = Str ''USD''))
    \<longrightarrow> filter_usd_stocks (Some (T\<lparr>rows := map g (rows T)\<rparr>))
          = map_sum id (\<lambda>T'. T'\<lparr>rows := map g (rows T')\<rparr>) (filter_usd_stocks (Some T))"
    using filter_usd_stocks_map [of g T] by blast
  from keep change mask a show ?thesis by blast
qed

theorem filter_usd_stocks_case_insensitive_witness:
  "filter_usd_stocks (Some \<lparr>columns = [''Symbol'', ''Currency'', ''Country'', ''Discount %''],
      rows = [[(''Symbol'', Str ''A''), (''Currency'', Str ''usd''), (''Country'', Str ''US''), (''Discount %'', Num 10)],
              [(''Symbol'', Str ''B''), (''Currency'', Str ''USD''), (''Country'', Str ''US''), (''Discount %'', Num 20)],
              [(''Symbol'', Str ''C''), (''Currency'', Str ''EUR''), (''Country'', Str ''DE''), (''Discount %'', Num 5)]]\<rparr>)
   = Inr \<lparr>columns = [''Symbol'', ''Currency'', ''Country'', ''Discount %''],
      rows = [[(''Symbol'', Str ''B''), (''Currency'', Str ''USD''), (''Country'', Str ''US''), (''Discount %'', Num 20)],
              [(''Symbol'', Str ''A''), (''Currency'', Str ''usd''), (''Country'', Str ''US''), (''Discount %'', Num 10)]]\<rparr>
   \<and> filter_usd_stocks (Some \<lparr>columns = [''Symbol'', ''Currency'', ''Country'', ''Discount %''],
      rows = [[(''Symbol'', Str ''A''), (''Currency'', Str ''USD''), (''Country'', Str ''US''), (''Discount %'', Num 10)],
              [(''Symbol'', Str ''B''), (''Currency'', Str ''USD''), (''Country'', Str ''US''), (''Discount %'', Num 20)],
              [(''Symbol'', Str ''C''), (''Currency'', Str ''EUR''), (''Country'', Str ''DE''), (''Discount %'', Num 5)]]\<rparr>)
   = Inr \<lparr>columns = [''Symbol'', ''Currency'', ''Country'', ''Discount %''],
      rows = [[(''Symbol'', Str ''B''), (''Currency'', Str ''USD''), (''Country'', Str ''US''), (''Discount %'', Num 20)],
              [(''Symbol'', Str ''A''), (''Currency'', Str ''USD''), (''Country'', Str ''US''), (''Discount %'', Num 10)]]\<rparr>"
proof -
  let ?a = "[(''Symbol'', Str ''A''), (''Currency'', Str ''usd''), (''Country'', Str ''US''), (''Discount %'', Num 10)]"
  let ?b = "[(''Symbol'', Str ''B''), (''Currency'', Str ''USD''), (''Country'', Str ''US''), (''Discount %'', Num 20)]"
  let ?c = "[(''Symbol'', Str ''C''), (''Currency'', Str ''EUR''), (''Country'', Str ''DE''), (''Discount %'', Num 5)]"
  let ?A = "[(''Symbol'', Str ''A''), (''Currency'', Str ''USD''), (''Country'', Str ''US''), (''Discount %'', Num 10)]"
  let ?cols = "[''Symbol'', ''Currency'', ''Country'', ''Discount %'']"
  let ?T = "\<lparr>columns = ?cols, rows = [?a, ?b, ?c]\<rparr>"
  let ?g = "\<lambda>r. if cell_of r ''Currency'' = Str ''usd'' then set_cell r ''Currency'' (Str ''USD'') else r"
  have h1: "''Currency'' \<in> set (columns ?T) \<and> ''Symbol'' \<in> set (columns ?T)" by simp
  have h2: "distinct (column ''Symbol'' (rows ?T))" by (simp add: column_def cell_of_def)
  have h3: "\<forall>r' \<in> set (rows ?T). \<not> is_Str (cell_of r' ''Discount %'')"
    by (simp add: cell_of_def is_Str_def)
  have h4: "?a \<in> set (rows ?T) \<and> cell_of ?a ''Currency'' = Str ''usd'' \<and> lower ''usd'' = ''usd''"
    by (simp add: cell_of_def lower_def lower_char_def)
  have h5: "''Country'' \<in> set (columns ?T) \<longrightarrow> us_country (cell_of ?a ''Country'')"
    by (simp add: cell_of_def us_country_def isin_def us_variations_def)
  have g1: "\<forall>r c. c \<noteq> ''Currency'' \<longrightarrow> cell_of (?g r) c = cell_of r c"
    by (simp add: cell_of_set_cell_other)
  have g2: "\<forall>r. cell_of (?g r) ''Currency'' = cell_of r ''Currency''
                \<or> (cell_of r ''Currency'' = Str ''usd'' \<and> cell_of (?g r) ''Currency'' = Str ''USD'')"
    by (simp add: cell_of_set_cell_same)
  have run: "filter_usd_stocks (Some ?T) = Inr \<lparr>columns = ?cols, rows = [?b, ?a]\<rparr>"
    by (simp add: filter_usd_stocks_def dedup_symbols_def duplicated_def sort_values_desc_def
        num_key_def usd_filter_def us_filter_def usd_currency_def us_country_def isin_def
        usd_variations_def us_variations_def cell_contains_def contains_nocase_def lower_def
        lower_char_def str_accessor_ok_def object_dtype_def column_def cell_of_def is_Str_def
        is_Num_def Let_def)
  have m: "map ?g (rows ?T) = [?A, ?b, ?c]" "map ?g [?b, ?a] = [?b, ?A]"
    by (simp_all add: cell_of_def)
  from filter_usd_stocks_case_insensitive [of ?T ?a "''usd''" ?g "rows ?T"] h1 h2 h3 h4 h5 g1 g2
  have kept: "\<exists>T'. filter_usd_stocks (Some ?T) = Inr T' \<and> ?a \<in> set (rows T')"
    and changed: "filter_usd_stocks (Some (?T\<lparr>rows := map ?g (rows ?T)\<rparr>))
          = map_sum id (\<lambda>T'. T'\<lparr>rows := map ?g (rows T')\<rparr>) (filter_usd_stocks (Some ?T))"
    by blast+
  from changed have "filter_usd_stocks (Some \<lparr>columns = ?cols, rows = [?A, ?b, ?c]\<rparr>)
      = Inr \<lparr>columns = ?cols, rows = [?b, ?A]\<rparr>"
    unfolding run using m by simp
  with run show ?thesis by simp
qed

section \<open>Failures of the table stages\<close>





section \<open>Sorting keeps the rows\<close>

lemma mset_sort_values_desc: "sort_values_desc c rs = Some rs' \<Longrightarrow> mset rs' = mset rs"
  by (auto simp: sort_values_desc_def Let_def split: if_splits)

lemma set_sort_values_desc: "sort_values_desc c rs = Some rs' \<Longrightarrow> set rs' = set rs"
  by (drule mset_sort_values_desc) (rule mset_eq_setD)

section \<open>The market cap filter\<close>

lemma market_cap_filter_mem:
  assumes "r \<in> set (market_cap_filter parse rs)"
  shows "\<exists>r0 \<in> set rs. \<exists>x. x \<ge> 1000000000 \<and> to_numeric parse (cell_of r0 ''Market Cap'') = Num x
           \<and> r = set_cell r0 ''Market Cap'' (Num x)"
proof -
  from assms obtain r0 where r0: "r0 \<in> set rs"
    and r: "r = set_cell r0 ''Market Cap'' (to_numeric parse (cell_of r0 ''Market Cap''))"
    and ge: "at_least (cell_of r ''Market Cap'') 1000000000"
    by (auto simp: market_cap_filter_def)
  from ge r obtain x where "to_numeric parse (cell_of r0 ''Market Cap'') = Num x" "x \<ge> 1000000000"
    by (auto simp: cell_of_set_cell_same at_least_def split: cell.splits)
  with r0 r show ?thesis by auto
qed

lemma market_cap_filter_known:
  "r \<in> set (market_cap_filter parse rs) \<Longrightarrow> \<exists>x. cell_of r ''Market Cap'' = Num x \<and> x \<ge> 1000000000"
  by (drule market_cap_filter_mem) (auto simp: cell_of_set_cell_same)

lemma ordered_columns_mem: "c \<in> set all_columns \<Longrightarrow> c \<in> set (ordered_columns all_columns)"
  unfolding ordered_columns_def Let_def set_append set_filter by blast

lemma market_cap_column: "''Market Cap'' \<in> set (ordered_columns (processed_columns cols))"
  by (rule ordered_columns_mem) (simp add: processed_columns_def Let_def)

section \<open>Rows through the pool\<close>

lemma analyze_process_stock_result:
  assumes "analyze_process_stock api row = Inr (Some r)"
  shows "cell_of r ''Symbol'' = cell_of row ''Symbol''
         \<and> (cell_of r ''Market Cap'' = NaN
            \<or> (\<exists>m. get_market_cap api (cell_of row ''Symbol'') = Inr (Some m)
                  \<and> cell_of r ''Market Cap'' = Num m))"
proof -
  from assms obtain market_cap where
    g: "get_market_cap api (cell_of row ''Symbol'') = Inr market_cap"
    and r: "r = set_cell (del_cell row ''Region_Fetched'') ''Market Cap''
              (if truthy market_cap then Num (the market_cap) else NaN)"
    by (auto simp: analyze_process_stock_def Let_def split: if_splits sum.splits)
  have "cell_of r ''Symbol'' = cell_of row ''Symbol''"
    unfolding r by (simp add: cell_of_set_cell_other cell_of_del_cell_other)
  moreover have "cell_of r ''Market Cap'' = NaN
            \<or> (\<exists>m. get_market_cap api (cell_of row ''Symbol'') = Inr (Some m)
                  \<and> cell_of r ''Market Cap'' = Num m)"
    unfolding r using g by (cases market_cap) (auto simp: cell_of_set_cell_same truthy_def)
  ultimately show ?thesis by simp
qed

lemma process_all_mem:
  "process_all api n irs = Inr results \<Longrightarrow> r \<in> set results \<Longrightarrow>
   \<exists>row \<in> snd ` set irs. analyze_process_stock api row = Inr (Some r)"
proof (induction api n irs arbitrary: results rule: process_all.induct)
  case (1 api n)
  then show ?case by simp
next
  case (2 api n idx row rest)
  show ?case
  proof (cases "analyze_process_stock api row")
    case (Inl e)
    with "2.prems" have "process_all api n rest = Inr results"
      by (simp split: if_splits)
    from "2.IH"(1) [OF Inl _ this "2.prems"(2)] "2.prems" Inl show ?thesis
      by (auto split: if_splits)
  next
    case (Inr res)
    show ?thesis
    proof (cases res)
      case None
      with Inr "2.prems" have "process_all api n rest = Inr results" by simp
      from "2.IH"(2) [OF Inr None this "2.prems"(2)] show ?thesis by auto
    next
      case (Some result)
      with Inr "2.prems" obtain results' where
        rest: "process_all api n rest = Inr results'" and res: "results = result # results'"
        by (auto split: sum.splits)
      show ?thesis
      proof (cases "r = result")
        case True
        with Inr Some show ?thesis by auto
      next
        case False
        with res "2.prems" have "r \<in> set results'" by simp
        from "2.IH"(3) [OF Inr Some rest this] show ?thesis by auto
      qed
    qed
  qed
qed

lemma dropna_symbol_rows: "snd ` set (dropna_symbol (zip [0 ..< length rs] rs)) \<subseteq> set rs"
  by (auto simp: dropna_symbol_def dest: set_zip_rightD)

section \<open>Rows of the sector files\<close>

lemma write_sectors_rows:
  "write_sectors float_str cols rs sectors files = (files', e) \<Longrightarrow> files' name = Some t \<Longrightarrow>
   files name = Some t \<or> set (rows t) \<subseteq> set rs"
proof (induction sectors arbitrary: files)
  case Nil
  then show ?case by simp
next
  case (Cons sector sectors)
  let ?sector_df = "filter (\<lambda>r. cell_of r ''Sector'' = sector) rs"
  let ?sorted = "if ''Discount %'' \<in> set cols then sort_values_desc ''Discount %'' ?sector_df
                 else Some ?sector_df"
  show ?case
  proof (cases ?sorted)
    case None
    with Cons.prems show ?thesis by (simp add: Let_def)
  next
    case (Some sector_rows)
    then have sub: "set sector_rows \<subseteq> set rs"
      by (auto split: if_splits dest: set_sort_values_desc)
    let ?files = "files(output_file float_str sector \<mapsto> \<lparr>columns = cols, rows = sector_rows\<rparr>)"
    from Cons.prems(1) Some have "write_sectors float_str cols rs sectors ?files = (files', e)"
      by (simp add: Let_def)
    from Cons.IH [OF this Cons.prems(2)] sub show ?thesis
      by (auto split: if_splits)
  qed
qed

lemma partition_by_sector_rows:
  assumes "partition_by_sector float_str df = (files, e)" and "files name = Some t"
    and "r \<in> set (rows t)"
  shows "\<exists>r0 \<in> set (rows df). r = fill_sector r0"
proof (cases "sorted_sectors (unique (column ''Sector'' (map fill_sector (rows df))))")
  case (Inl ex)
  with assms show ?thesis by (auto simp: partition_by_sector_def Let_def)
next
  case (Inr ordered)
  with assms(1) obtain cols where
    "write_sectors float_str cols (map fill_sector (rows df)) ordered Map.empty = (files, e)"
    by (simp add: partition_by_sector_def Let_def)
  from write_sectors_rows [OF this assms(2)] assms(3) show ?thesis by auto
qed

lemma analyze_main_written:
  assumes run: "analyze_main api_key api parse float_str input = (files, ending)"
    and written: "files name = Some t"
  obtains df0 processed_stocks e where "input = Some df0"
    and "process_all api (length (dropna_symbol (zip [0 ..< length (rows df0)] (rows df0))))
           (dropna_symbol (zip [0 ..< length (rows df0)] (rows df0))) = Inr processed_stocks"
    and "partition_by_sector float_str
           \<lparr>columns = ordered_columns (processed_columns (columns df0)),
            rows = market_cap_filter parse (filter (symbol_not_blank float_str) processed_stocks)\<rparr>
         = (files, e)"
proof -
  have ne: "files \<noteq> Map.empty" using written by auto
  have key: "api_key"
    using run ne by (cases api_key) (auto simp: analyze_main_def)
  obtain df0 where input: "input = Some df0"
    using run ne key by (cases input) (auto simp: analyze_main_def)
  let ?df = "dropna_symbol (zip [0 ..< length (rows df0)] (rows df0))"
  let ?cols = "ordered_columns (processed_columns (columns df0))"
  have sym: "''Symbol'' \<in> set (columns df0)"
  proof (rule ccontr)
    assume "''Symbol'' \<notin> set (columns df0)"
    with run key input have "files = Map.empty" by (simp add: analyze_main_def)
    with ne show False by simp
  qed
  have nonempty: "length ?df \<noteq> 0"
  proof
    assume "length ?df = 0"
    with run key input sym have "files = Map.empty" by (simp add: analyze_main_def Let_def)
    with ne show False by simp
  qed
  obtain processed_stocks where pool: "process_all api (length ?df) ?df = Inr processed_stocks"
  proof (cases "process_all api (length ?df) ?df")
    case (Inl ex)
    with run key input sym nonempty have "files = Map.empty"
      by (simp add: analyze_main_def Let_def)
    with ne show ?thesis by simp
  next
    case (Inr ps)
    then show ?thesis by (rule that)
  qed
  let ?dfp = "market_cap_filter parse (filter (symbol_not_blank float_str) processed_stocks)"
  have some: "length processed_stocks \<noteq> 0"
  proof
    assume "length processed_stocks = 0"
    with run key input sym nonempty pool have "files = Map.empty"
      by (simp add: analyze_main_def Let_def)
    with ne show False by simp
  qed
  have remaining: "length ?dfp \<noteq> 0"
  proof
    assume "length ?dfp = 0"
    with run key input sym nonempty pool some have "files = Map.empty"
      by (simp add: analyze_main_def Let_def market_cap_column)
    with ne show False by simp
  qed
  obtain fs e where part: "partition_by_sector float_str \<lparr>columns = ?cols, rows = ?dfp\<rparr> = (fs, e)"
    by (cases "partition_by_sector float_str \<lparr>columns = ?cols, rows = ?dfp\<rparr>")
  with run key input sym nonempty pool some remaining have "fs = files"
    by (cases e) (simp_all add: analyze_main_def Let_def market_cap_column)
  with part input pool show ?thesis by (auto intro: that)
qed

text \<open>
  Claim C9. The market cap filter keeps only rows whose market cap, made numeric, is a
  number of at least 1,000,000,000: a row whose market cap is missing or is a text that is
  not a number is removed. So every row of every sector file written by \<^verbatim>\<open>main\<close> has such
  a market cap, and it is the one \<^verbatim>\<open>get_market_cap\<close> fetched for the symbol of an input
  row: a stock whose market cap could not be fetched is in no sector file.
\<close>

theorem unknown_market_cap_not_written:
  assumes "analyze_main api_key api parse float_str input = (files, ending)"
    and "files name = Some t" and "r \<in> set (rows t)"
  shows "(\<exists>x. cell_of r ''Market Cap'' = Num x \<and> x \<ge> 1000000000
           \<and> (\<exists>df row. input = Some df \<and> row \<in> set (rows df)
                 \<and> cell_of row ''Symbol'' = cell_of r ''Symbol''
                 \<and> get_market_cap api (cell_of row ''Symbol'') = Inr (Some x)))
         \<and> (\<forall>r' \<in> set (market_cap_filter parse rs).
               \<exists>x. to_numeric parse (cell_of r' ''Market Cap'') = Num x \<and> x \<ge> 1000000000)"
proof -
  from analyze_main_written [OF assms(1,2)] obtain df0 processed_stocks e where
    input: "input = Some df0"
    and pool: "process_all api (length (dropna_symbol (zip [0 ..< length (rows df0)] (rows df0))))
                 (dropna_symbol (zip [0 ..< length (rows df0)] (rows df0))) = Inr processed_stocks"
    and part: "partition_by_sector float_str
                 \<lparr>columns = ordered_columns (processed_columns (columns df0)),
                  rows = market_cap_filter parse (filter (symbol_not_blank float_str) processed_stocks)\<rparr>
               = (files, e)"
    by blast
  let ?dfp = "market_cap_filter parse (filter (symbol_not_blank float_str) processed_stocks)"
  from partition_by_sector_rows [OF part assms(2,3)]
  obtain r1 where r1: "r1 \<in> set ?dfp" and r: "r = fill_sector r1" by auto
  from market_cap_filter_mem [OF r1] obtain r2 x where
    r2: "r2 \<in> set processed_stocks" and x: "x \<ge> 1000000000"
    and num: "to_numeric parse (cell_of r2 ''Market Cap'') = Num x"
    and r1_eq: "r1 = set_cell r2 ''Market Cap'' (Num x)" by auto
  from process_all_mem [OF pool r2] dropna_symbol_rows [of "rows df0"]
  obtain row where row: "row \<in> set (rows df0)"
    and run: "analyze_process_stock api row = Inr (Some r2)" by blast
  from analyze_process_stock_result [OF run] num
  have sym: "cell_of r2 ''Symbol'' = cell_of row ''Symbol''"
    and cap: "get_market_cap api (cell_of row ''Symbol'') = Inr (Some x)"
    by (auto simp: to_numeric_def)
  have "cell_of r ''Market Cap'' = Num x"
    unfolding r r1_eq by (simp add: cell_of_fill_sector cell_of_set_cell_same)
  moreover have "cell_of r ''Symbol'' = cell_of row ''Symbol''"
    unfolding r r1_eq using sym by (simp add: cell_of_fill_sector cell_of_set_cell_other)
  moreover have "\<forall>r' \<in> set (market_cap_filter parse rs).
      \<exists>x. to_numeric parse (cell_of r' ''Market Cap'') = Num x \<and> x \<ge> 1000000000"
    by (auto dest!: market_cap_filter_mem simp: cell_of_set_cell_same to_numeric_def)
  ultimately show ?thesis using x input row cap by auto
qed

theorem unknown_market_cap_not_written_witness:
  "analyze_main True
     \<lparr>key_metrics = (\<lambda>s. if s = Str ''A'' then Http 200 (Json [Some 2000000000]) else Http 404 NotJson),
      profile_mkt_cap = (\<lambda>s. Http 429 NotJson), quote_shares = (\<lambda>s. Timeout)\<rparr>
     (\<lambda>_. None) (\<lambda>_. [])
     (Some \<lparr>columns = [''Symbol'', ''Sector''],
        rows = [[(''Symbol'', Str ''A''), (''Sector'', Str ''Tech'')],
                [(''Symbol'', Str ''B''), (''Sector'', Str ''Tech'')]]\<rparr>)
   = ([''Tech.xlsx'' \<mapsto> \<lparr>columns = [''Symbol'', ''Market Cap'', ''Sector''],
        rows = [[(''Symbol'', Str ''A''), (''Sector'', Str ''Tech''), (''Market Cap'', Num 2000000000)]]\<rparr>],
      Complete)
   \<and> (\<exists>x. cell_of [(''Symbol'', Str ''A''), (''Sector'', Str ''Tech''), (''Market Cap'', Num 2000000000)]
              ''Market Cap'' = Num x \<and> x \<ge> 1000000000)
   \<and> market_cap_filter (\<lambda>_. None)
         [[(''Market Cap'', Num 2000000000)], [(''Market Cap'', NaN)], [(''Market Cap'', Str ''n/a'')],
          [(''Market Cap'', Num 5)]]
       = [[(''Market Cap'', Num 2000000000)]]
   \<and> (\<exists>x. to_numeric (\<lambda>_. None) (cell_of [(''Market Cap'', Num 2000000000)] ''Market Cap'') = Num x
          \<and> x \<ge> 1000000000)"
proof -
  let ?api = "\<lparr>key_metrics = (\<lambda>s. if s = Str ''A'' then Http 200 (Json [Some 2000000000]) else Http 404 NotJson),
      profile_mkt_cap = (\<lambda>s. Http 429 NotJson), quote_shares = (\<lambda>s. Timeout)\<rparr>"
  let ?df = "\<lparr>columns = [''Symbol'', ''Sector''],
        rows = [[(''Symbol'', Str ''A''), (''Sector'', Str ''Tech'')],
                [(''Symbol'', Str ''B''), (''Sector'', Str ''Tech'')]]\<rparr>"
  let ?r = "[(''Symbol'', Str ''A''), (''Sector'', Str ''Tech''), (''Market Cap'', Num 2000000000)]"
  let ?t = "\<lparr>columns = [''Symbol'', ''Market Cap'', ''Sector''], rows = [?r]\<rparr>"
  let ?rs = "[[(''Market Cap'', Num 2000000000)], [(''Market Cap'', NaN)], [(''Market Cap'', Str ''n/a'')],
          [(''Market Cap'', Num 5)]]"
  have run: "analyze_main True ?api (\<lambda>_. None) (\<lambda>_. []) (Some ?df) = ([''Tech.xlsx'' \<mapsto> ?t], Complete)"
    by (simp add: analyze_main_def dropna_symbol_def cell_of_def
        analyze_process_stock_def get_market_cap_def first_market_cap_def quote_market_cap_def
        analyze_make_api_request_def cell_truthy_def truthy_def del_cell_def
        processed_columns_def ordered_columns_def symbol_not_blank_def cell_str_def strip_def
        isspace_def market_cap_filter_def to_numeric_def at_least_def partition_by_sector_def
        fill_sector_def unique_def column_def sorted_sectors_def is_Str_def is_Num_def the_Str_def
        output_file_def safe_sector_name_def isalnum_def Let_def upt_rec)
  have written: "[''Tech.xlsx'' \<mapsto> ?t] ''Tech.xlsx'' = Some ?t" by simp
  have mem: "?r \<in> set (rows ?t)" by simp
  have filt: "market_cap_filter (\<lambda>_. None) ?rs = [[(''Market Cap'', Num 2000000000)]]"
    by (simp add: market_cap_filter_def to_numeric_def at_least_def cell_of_def)
  from unknown_market_cap_not_written [OF run written mem, of ?rs] filt
  have "(\<exists>x. cell_of ?r ''Market Cap'' = Num x \<and> x \<ge> 1000000000)
      \<and> (\<exists>x. to_numeric (\<lambda>_. None) (cell_of [(''Market Cap'', Num 2000000000)] ''Market Cap'') = Num x
          \<and> x \<ge> 1000000000)"
    by auto
  with run filt show ?thesis by blast
qed

section \<open>Sector files with the same name\<close>

text \<open>
  Claim C4 at a table with the sectors \<^verbatim>\<open>Energy\<close> and \<^verbatim>\<open>Energy\<close> followed by a space:
  both sectors get the file name \<^verbatim>\<open>Energy.xlsx\<close>, the second file replaces the first, and
  the output folder holds the row of stock B only; the row of stock A is in no file.
\<close>

theorem sector_files_collide:
  "partition_by_sector (\<lambda>_. [])
     \<lparr>columns = [''Symbol'', ''Sector''],
      rows = [[(''Symbol'', Str ''A''), (''Sector'', Str ''Energy'')],
              [(''Symbol'', Str ''B''), (''Sector'', Str ''Energy '')]]\<rparr>
   = ([''Energy.xlsx'' \<mapsto> \<lparr>columns = [''Symbol'', ''Sector''],
         rows = [[(''Symbol'', Str ''B''), (''Sector'', Str ''Energy '')]]\<rparr>], None)"
  by (simp add: partition_by_sector_def fill_sector_def cell_of_def
      unique_def column_def sorted_sectors_def is_Str_def is_Num_def the_Str_def output_file_def
      safe_sector_name_def isalnum_def cell_str_def strip_def isspace_def Let_def)

section \<open>The cache only grows\<close>

lemma cache_stock_raises:
  "cache_stock symbol price dcf profile now c = Inl e \<longleftrightarrow>
     (\<exists>rs. c symbol = Some (Records rs)) \<and> e = TypeError"
  by (auto simp: cache_stock_def Let_def split: option.splits cache_val.splits)

lemma cache_stock_fields:
  assumes "cache_stock symbol price dcf profile now c = Inr c'"
  shows "fields_of c' symbol =
           fields_of c symbol \<union> {''timestamp''}
             \<union> (if price = None then {} else {''price''})
             \<union> (if dcf = None then {} else {''dcf''})
             \<union> (if profile = None then {} else {''profile''})"
    and "k \<noteq> symbol \<Longrightarrow> c' k = c k"
proof -
  obtain e where e: "(case c symbol of None \<Rightarrow> Some Map.empty | Some (Entry e) \<Rightarrow> Some e
                        | Some (Records _) \<Rightarrow> None) = Some e"
    using assms by (auto simp: cache_stock_def split: option.splits)
  then have dom_e: "dom e = fields_of c symbol"
    by (auto simp: fields_of_def split: option.splits cache_val.splits)
  define e1 where "e1 = (case price of None \<Rightarrow> e | Some p \<Rightarrow> e(''price'' \<mapsto> CNum p))"
  define e2 where "e2 = (case dcf of None \<Rightarrow> e1 | Some d \<Rightarrow> e1(''dcf'' \<mapsto> CNum d))"
  define e3 where "e3 = (case profile of None \<Rightarrow> e2 | Some p \<Rightarrow> e2(''profile'' \<mapsto> CProfile p))"
  have c': "c' = c(symbol \<mapsto> Entry (e3(''timestamp'' \<mapsto> CStr now)))"
    using assms e unfolding e3_def e2_def e1_def by (auto simp: cache_stock_def Let_def)
  have d1: "dom e1 = dom e \<union> (if price = None then {} else {''price''})"
    by (auto simp: e1_def split: option.splits)
  have d2: "dom e2 = dom e1 \<union> (if dcf = None then {} else {''dcf''})"
    by (auto simp: e2_def split: option.splits)
  have d3: "dom e3 = dom e2 \<union> (if profile = None then {} else {''profile''})"
    by (auto simp: e3_def split: option.splits)
  have "fields_of c' symbol = insert ''timestamp'' (dom e3)"
    by (simp add: c' fields_of_def)
  then show "fields_of c' symbol =
           fields_of c symbol \<union> {''timestamp''}
             \<union> (if price = None then {} else {''price''})
             \<union> (if dcf = None then {} else {''dcf''})
             \<union> (if profile = None then {} else {''profile''})"
    unfolding d3 d2 d1 dom_e by blast
  show "k \<noteq> symbol \<Longrightarrow> c' k = c k"
    by (simp add: c')
qed

text \<open>
  Claim C3. A call of \<^verbatim>\<open>cache_stock\<close>, with any price, DCF value and profile given or
  not, keeps every field of every symbol's entry: the fields of the symbol written are
  those it had, the timestamp and the fields given; the entries of the other symbols are as
  before. The call raises only under a key that holds a list, and then changes nothing.
\<close>

theorem cache_stock_keeps_fields:
  "(cache_stock symbol price dcf profile now c = Inr c' \<longrightarrow>
      fields_of c k \<subseteq> fields_of c' k
      \<and> (c k \<noteq> None \<longrightarrow> c' k \<noteq> None)
      \<and> ''timestamp'' \<in> fields_of c' symbol)
   \<and> ((\<exists>c''. cache_stock symbol price dcf profile now c = Inr c'')
        \<or> (\<exists>rs. c symbol = Some (Records rs)))"
proof -
  have "fields_of c k \<subseteq> fields_of c' k \<and> (c k \<noteq> None \<longrightarrow> c' k \<noteq> None)
      \<and> ''timestamp'' \<in> fields_of c' symbol"
    if run: "cache_stock symbol price dcf profile now c = Inr c'"
  proof (cases "k = symbol")
    case True
    have "c' symbol \<noteq> None"
      using run by (auto simp: cache_stock_def Let_def split: option.splits)
    with True cache_stock_fields(1) [OF run] show ?thesis by auto
  next
    case False
    with cache_stock_fields [OF run] show ?thesis by (auto simp: fields_of_def)
  qed
  moreover have "(\<exists>c''. cache_stock symbol price dcf profile now c = Inr c'')
        \<or> (\<exists>rs. c symbol = Some (Records rs))"
    using cache_stock_raises [of symbol price dcf profile now c]
    by (cases "cache_stock symbol price dcf profile now c") auto
  ultimately show ?thesis by blast
qed

theorem cache_stock_keeps_fields_witness:
  "cache_stock ''AAPL'' None (Some 200) None ''t1''
      [''AAPL'' \<mapsto> Entry [''price'' \<mapsto> CNum 150, ''timestamp'' \<mapsto> CStr ''t0'']]
    = Inr [''AAPL'' \<mapsto> Entry [''price'' \<mapsto> CNum 150, ''dcf'' \<mapsto> CNum 200, ''timestamp'' \<mapsto> CStr ''t1'']]
   \<and> fields_of [''AAPL'' \<mapsto> Entry [''price'' \<mapsto> CNum 150, ''timestamp'' \<mapsto> CStr ''t0'']] ''AAPL''
       = {''price'', ''timestamp''}
   \<and> {''price'', ''timestamp''}
       \<subseteq> fields_of [''AAPL'' \<mapsto> Entry [''price'' \<mapsto> CNum 150, ''dcf'' \<mapsto> CNum 200,
             ''timestamp'' \<mapsto> CStr ''t1'']] ''AAPL''"
proof -
  let ?c = "[''AAPL'' \<mapsto> Entry [''price'' \<mapsto> CNum 150, ''timestamp'' \<mapsto> CStr ''t0'']]"
  let ?c' = "[''AAPL'' \<mapsto> Entry [''price'' \<mapsto> CNum 150, ''dcf'' \<mapsto> CNum 200, ''timestamp'' \<mapsto> CStr ''t1'']]"
  have run: "cache_stock ''AAPL'' None (Some 200) None ''t1'' ?c = Inr ?c'"
    by (simp add: cache_stock_def fun_upd_twist)
  have before: "fields_of ?c ''AAPL'' = {''price'', ''timestamp''}"
    by (auto simp: fields_of_def)
  from cache_stock_keeps_fields [of "''AAPL''" None "Some 200" None "''t1''" ?c ?c' "''AAPL''"] run
  have "fields_of ?c ''AAPL'' \<subseteq> fields_of ?c' ''AAPL''" by blast
  with run before show ?thesis by simp
qed

section \<open>The classifier\<close>

lemma round2_zero: "round2 0 = 0"
  by (simp add: round2_def)

lemma valuation_status_cases:
  "(valuation_status P D B = ''UNDERVALUED'' \<longleftrightarrow> P < D)
   \<and> (valuation_status P D B = ''FAIR'' \<longleftrightarrow> D \<le> P \<and> P \<le> D * (1 + B))
   \<and> (valuation_status P D B = ''OVERVALUED (>20%)'' \<longleftrightarrow> P > D * (1 + B) \<and> D \<le> P)"
  by (auto simp: valuation_status_def)

section \<open>What process\_stock returns\<close>

lemma without_data_None:
  "without_data symbol company_name dcf_value current_price = None \<longleftrightarrow>
     (\<exists>P D. current_price = Some P \<and> dcf_value = Some D \<and> 0 < P \<and> 0 < D)"
  by (cases dcf_value; cases current_price) (auto simp: without_data_def no_value_def)

lemma without_data_Some:
  "without_data symbol company_name dcf_value current_price = Some d \<Longrightarrow>
     \<not> detail_has_data d \<and> (detail_price d = None \<or> detail_dcf d = None)"
  by (auto simp: without_data_def split: if_splits)

lemma process_stock_classified:
  assumes run: "process_stock api now symbol use_bulk dd pb B s = (Inr (Some d), s')"
    and P: "detail_price d = Some P" and D: "detail_dcf d = Some D"
  shows "0 < P \<and> 0 < D \<and> detail_status d = valuation_status P D B \<and> detail_has_data d"
proof -
  from run have sym: "symbol \<noteq> []" by (auto simp: process_stock_def)
  obtain r s2 where fv: "fetch_values api now symbol use_bulk dd s = (r, s2)"
    by (cases "fetch_values api now symbol use_bulk dd s")
  from run sym fv obtain dcf_value current_price where r: "r = Inr (dcf_value, current_price)"
    by (cases r) (auto simp: process_stock_def Let_def)
  let ?name = "display_name symbol use_bulk pb s"
  show ?thesis
  proof (cases "without_data symbol ?name dcf_value current_price")
    case (Some d')
    with run sym fv r have "d = d'" by (simp add: process_stock_def Let_def)
    with without_data_Some [OF Some] P D show ?thesis by auto
  next
    case None
    then obtain P' D' where vals: "current_price = Some P'" "dcf_value = Some D'" "0 < P'" "0 < D'"
      unfolding without_data_None by blast
    obtain q s3 where fp: "fetch_profile api now symbol use_bulk pb s2 = (q, s3)"
      by (cases "fetch_profile api now symbol use_bulk pb s2")
    from run sym fv r None fp obtain profile_opt where q: "q = Inr profile_opt"
      by (cases q) (auto simp: process_stock_def Let_def)
    obtain e s4 where st: "store_result symbol now P' D' B profile_opt s3 = (e, s4)"
      by (cases "store_result symbol now P' D' B profile_opt s3")
    from run sym fv r None fp q st vals
    have "d = \<lparr>detail_symbol = symbol, detail_company_name = ?name,
               detail_price = Some P', detail_dcf = Some D',
               detail_status = valuation_status P' D' B, detail_has_data = True\<rparr>"
      by (cases e) (auto simp: process_stock_def Let_def)
    with P D vals show ?thesis by auto
  qed
qed

section \<open>Functions that leave the list of undervalued stocks alone\<close>

lemma uc_add_log [simp]: "undervalued_stocks_cache (add_log es s) = undervalued_stocks_cache s"
  by (simp add: add_log_def)

lemma uc_get_dcf_value:
  "undervalued_stocks_cache (snd (get_dcf_value api now symbol s)) = undervalued_stocks_cache s"
  by (simp add: get_dcf_value_def Let_def
      split: option.splits body.splits list.splits prod.splits sum.splits)

lemma uc_get_stock_price:
  "undervalued_stocks_cache (snd (get_stock_price api now symbol s)) = undervalued_stocks_cache s"
  by (simp add: get_stock_price_def Let_def
      split: option.splits body.splits list.splits prod.splits sum.splits)

lemma uc_get_company_profile:
  "undervalued_stocks_cache (snd (get_company_profile api now symbol s)) = undervalued_stocks_cache s"
  by (simp add: get_company_profile_def Let_def
      split: option.splits body.splits list.splits prod.splits sum.splits)

lemma uc_fetch_values:
  "undervalued_stocks_cache (snd (fetch_values api now symbol use_bulk dd s)) = undervalued_stocks_cache s"
proof -
  have a: "undervalued_stocks_cache s1 = undervalued_stocks_cache s"
    if "get_dcf_value api now symbol s = (r, s1)" for r s1
    using uc_get_dcf_value [of api now symbol s] that by simp
  have b: "undervalued_stocks_cache s2 = undervalued_stocks_cache s1"
    if "get_stock_price api now symbol s1 = (r, s2)" for r s1 s2
    using uc_get_stock_price [of api now symbol s1] that by simp
  show ?thesis
    by (auto simp: fetch_values_def Let_def a b split: option.splits prod.splits sum.splits)
qed

lemma uc_fetch_profile:
  "undervalued_stocks_cache (snd (fetch_profile api now symbol use_bulk pb s)) = undervalued_stocks_cache s"
  by (simp add: fetch_profile_def uc_get_company_profile split: option.splits)

lemma uc_cache_result:
  "undervalued_stocks_cache (snd (cache_result symbol P D p now s)) = undervalued_stocks_cache s"
  by (simp add: cache_result_def split: sum.splits)


section \<open>One row per symbol\<close>

lemma existing_idx_None: "existing_idx symbol xs = None \<longleftrightarrow> symbol \<notin> Symbol ` set xs"
  by (induction xs) auto

lemma existing_idx_Some:
  "existing_idx symbol xs = Some i \<Longrightarrow> i < length xs \<and> Symbol (xs ! i) = symbol"
  by (induction xs arbitrary: i) (auto split: if_splits)

lemma existing_idx_first:
  "existing_idx symbol xs = Some i \<Longrightarrow> j < i \<Longrightarrow> Symbol (xs ! j) \<noteq> symbol"
proof (induction xs arbitrary: i j)
  case Nil
  then show ?case by simp
next
  case (Cons x xs)
  then show ?case by (cases j) (auto split: if_splits)
qed

lemma map_Symbol_put_stock:
  assumes "Symbol d = symbol"
  shows "map Symbol (put_stock symbol d xs) =
           (if symbol \<in> Symbol ` set xs then map Symbol xs else map Symbol xs @ [symbol])"
proof (cases "existing_idx symbol xs")
  case None
  moreover from None have "symbol \<notin> Symbol ` set xs" by (simp add: existing_idx_None)
  ultimately show ?thesis using assms by (simp add: put_stock_def)
next
  case (Some i)
  from existing_idx_Some [OF Some] have i: "i < length xs" "Symbol (xs ! i) = symbol" by auto
  then have mem: "symbol \<in> Symbol ` set xs" by (metis imageI nth_mem)
  have "map Symbol (xs[i := d]) = (map Symbol xs)[i := symbol]"
    using assms by (simp add: map_update)
  also have "\<dots> = map Symbol xs"
    using i by (metis list_update_id nth_map)
  finally show ?thesis using Some mem by (simp add: put_stock_def)
qed

lemma put_stock_distinct:
  "Symbol d = symbol \<Longrightarrow> distinct (map Symbol xs) \<Longrightarrow> distinct (map Symbol (put_stock symbol d xs))"
  by (simp add: map_Symbol_put_stock)

lemma Symbol_undervalued_row [simp]: "Symbol (undervalued_row symbol now P D p) = symbol"
  by (simp add: undervalued_row_def)

lemma Symbol_fair_row [simp]: "Symbol (fair_row symbol now P D p) = symbol"
  by (simp add: fair_row_def)

lemma cache_result_lists:
  "undervalued_stocks (snd (cache_result symbol P D p now s)) = undervalued_stocks s"
  "fair_stocks (snd (cache_result symbol P D p now s)) = fair_stocks s"
  by (simp_all add: cache_result_def split: sum.splits)

lemma store_result_state:
  assumes "store_result symbol now P D B profile_opt s = (e, s')"
  shows "undervalued_stocks_cache s' =
           (case profile_opt of
              Some p \<Rightarrow> if P < D
                then put_stock symbol (undervalued_row symbol now P D p) (undervalued_stocks_cache s)
                else undervalued_stocks_cache s
            | None \<Rightarrow> undervalued_stocks_cache s)"
    and "undervalued_stocks s' =
           (case profile_opt of
              Some p \<Rightarrow> if P < D
                then undervalued_stocks s @ [undervalued_row symbol now P D p]
                else undervalued_stocks s
            | None \<Rightarrow> undervalued_stocks s)"
    and "fair_stocks s' =
           (case profile_opt of
              Some p \<Rightarrow> if D \<le> P \<and> P \<le> D * (1 + B)
                then fair_stocks s @ [fair_row symbol now P D p]
                else fair_stocks s
            | None \<Rightarrow> fair_stocks s)"
proof -
  have cr: "undervalued_stocks_cache t' = undervalued_stocks_cache t
      \<and> undervalued_stocks t' = undervalued_stocks t \<and> fair_stocks t' = fair_stocks t"
    if "cache_result symbol P D p now t = (e, t')" for p t t'
    using uc_cache_result [of symbol P D p now t] cache_result_lists [of symbol P D p now t] that
    by simp
  show "undervalued_stocks_cache s' =
           (case profile_opt of
              Some p \<Rightarrow> if P < D
                then put_stock symbol (undervalued_row symbol now P D p) (undervalued_stocks_cache s)
                else undervalued_stocks_cache s
            | None \<Rightarrow> undervalued_stocks_cache s)"
    using assms
    by (auto simp: store_result_def Let_def dest!: cr
        split: option.splits if_splits cache_val.splits)
  show "undervalued_stocks s' =
           (case profile_opt of
              Some p \<Rightarrow> if P < D
                then undervalued_stocks s @ [undervalued_row symbol now P D p]
                else undervalued_stocks s
            | None \<Rightarrow> undervalued_stocks s)"
    using assms
    by (auto simp: store_result_def Let_def dest!: cr
        split: option.splits if_splits cache_val.splits)
  show "fair_stocks s' =
           (case profile_opt of
              Some p \<Rightarrow> if D \<le> P \<and> P \<le> D * (1 + B)
                then fair_stocks s @ [fair_row symbol now P D p]
                else fair_stocks s
            | None \<Rightarrow> fair_stocks s)"
    using assms
    by (auto simp: store_result_def Let_def dest!: cr
        split: option.splits if_splits cache_val.splits)
qed

section \<open>The list of undervalued stocks through a run\<close>

lemma process_stock_uc:
  assumes run: "process_stock api now symbol use_bulk dd pb B s = (r, s')"
  shows "undervalued_stocks_cache s' = undervalued_stocks_cache s
         \<or> (\<exists>d. Symbol d = symbol
               \<and> undervalued_stocks_cache s' = put_stock symbol d (undervalued_stocks_cache s))"
proof (cases "symbol = []")
  case True
  with run show ?thesis by (simp add: process_stock_def)
next
  case sym: False
  obtain v s2 where fv: "fetch_values api now symbol use_bulk dd s = (v, s2)"
    by (cases "fetch_values api now symbol use_bulk dd s")
  then have s2: "undervalued_stocks_cache s2 = undervalued_stocks_cache s"
    using uc_fetch_values [of api now symbol use_bulk dd s] by simp
  show ?thesis
  proof (cases v)
    case (Inl e)
    with run sym fv have "s' = s2" by (simp add: process_stock_def Let_def)
    with s2 show ?thesis by simp
  next
    case (Inr vals)
    obtain dcf_value current_price where vals: "vals = (dcf_value, current_price)"
      by (cases vals)
    let ?name = "display_name symbol use_bulk pb s"
    show ?thesis
    proof (cases "without_data symbol ?name dcf_value current_price")
      case (Some d')
      with run sym fv Inr vals have "s' = s2" by (simp add: process_stock_def Let_def)
      with s2 show ?thesis by simp
    next
      case None
      obtain q s3 where fp: "fetch_profile api now symbol use_bulk pb s2 = (q, s3)"
        by (cases "fetch_profile api now symbol use_bulk pb s2")
      then have s3: "undervalued_stocks_cache s3 = undervalued_stocks_cache s2"
        using uc_fetch_profile [of api now symbol use_bulk pb s2] by simp
      show ?thesis
      proof (cases q)
        case (Inl e)
        with run sym fv Inr vals None fp have "s' = s3" by (simp add: process_stock_def Let_def)
        with s2 s3 show ?thesis by simp
      next
        case q: (Inr profile_opt)
        obtain e s4 where st: "store_result symbol now (the current_price) (the dcf_value) B
            profile_opt s3 = (e, s4)"
          by (cases "store_result symbol now (the current_price) (the dcf_value) B profile_opt s3")
        from run sym fv Inr vals None fp q st have "s' = s4"
          by (cases e) (simp_all add: process_stock_def Let_def)
        moreover from store_result_state(1) [OF st]
        have "undervalued_stocks_cache s4 = undervalued_stocks_cache s3
            \<or> (\<exists>p. undervalued_stocks_cache s4 =
                  put_stock symbol (undervalued_row symbol now (the current_price) (the dcf_value) p)
                    (undervalued_stocks_cache s3))"
          by (auto split: option.splits if_splits)
        ultimately show ?thesis
          using s2 s3 Symbol_undervalued_row by metis
      qed
    qed
  qed
qed

lemma process_stock_distinct:
  assumes "process_stock api now symbol use_bulk dd pb B s = (r, s')"
    and "distinct (map Symbol (undervalued_stocks_cache s))"
  shows "distinct (map Symbol (undervalued_stocks_cache s'))"
  using process_stock_uc [OF assms(1)] assms(2) by (auto simp: put_stock_distinct)

lemma process_stocks_distinct:
  "distinct (map Symbol (undervalued_stocks_cache (final r))) \<Longrightarrow>
   distinct (map Symbol (undervalued_stocks_cache
     (final (process_stocks api clock use_bulk dd pb B stocks r))))"
proof (induction stocks arbitrary: r)
  case Nil
  then show ?case by simp
next
  case (Cons symbol stocks)
  obtain res s where run: "process_stock api (clock symbol) symbol use_bulk dd pb B (final r) = (res, s)"
    by (cases "process_stock api (clock symbol) symbol use_bulk dd pb B (final r)")
  from process_stock_distinct [OF run Cons.prems]
  have d: "distinct (map Symbol (undervalued_stocks_cache s))" .
  show ?case
  proof (cases res)
    case (Inl e)
    with run d show ?thesis by (simp add: Cons.IH)
  next
    case (Inr detail)
    with run d show ?thesis by (cases detail) (simp_all add: Cons.IH)
  qed
qed

lemma process_stocks_count:
  "length (stocks_details (process_stocks api clock use_bulk dd pb B stocks r))
     + skipped (process_stocks api clock use_bulk dd pb B stocks r)
   = length (stocks_details r) + skipped r + length stocks"
proof (induction stocks arbitrary: r)
  case Nil
  then show ?case by simp
next
  case (Cons symbol stocks)
  obtain res s where run: "process_stock api (clock symbol) symbol use_bulk dd pb B (final r) = (res, s)"
    by (cases "process_stock api (clock symbol) symbol use_bulk dd pb B (final r)")
  show ?case
  proof (cases res)
    case (Inl e)
    with run show ?thesis by (simp add: Cons.IH)
  next
    case (Inr detail)
    with run show ?thesis by (cases detail) (simp_all add: Cons.IH)
  qed
qed

lemma uc_get_all_stocks:
  "undervalued_stocks_cache (snd (get_all_stocks api s)) = undervalued_stocks_cache s"
  by (simp add: get_all_stocks_def Let_def split: prod.splits option.splits body.splits list.splits)

lemma uc_cache_dcf_items:
  "undervalued_stocks_cache (snd (cache_dcf_items clock items d s)) = undervalued_stocks_cache s"
  by (induction clock items d s rule: cache_dcf_items.induct) (auto split: sum.splits)

lemma uc_get_dcf_bulk:
  "undervalued_stocks_cache (snd (get_dcf_bulk api clock s)) = undervalued_stocks_cache s"
proof -
  have a: "undervalued_stocks_cache s2 = undervalued_stocks_cache s1"
    if "cache_dcf_items clock data [] s1 = (r, s2)" for data s1 r s2
    using uc_cache_dcf_items [of clock data "[]" s1] that by simp
  show ?thesis
    by (auto simp: get_dcf_bulk_def Let_def a
        split: prod.splits option.splits body.splits sum.splits)
qed

lemma uc_cache_profile_items:
  "undervalued_stocks_cache (snd (cache_profile_items clock items d s)) = undervalued_stocks_cache s"
  by (induction clock items d s rule: cache_profile_items.induct)
    (auto simp: Let_def split: sum.splits)

lemma uc_profiles_round:
  "profiles_round api clock part d s = Inl (r, s') \<Longrightarrow>
     undervalued_stocks_cache s' = undervalued_stocks_cache s"
  "profiles_round api clock part d s = Inr (d', s') \<Longrightarrow>
     undervalued_stocks_cache s' = undervalued_stocks_cache s"
proof -
  have a: "undervalued_stocks_cache s2 = undervalued_stocks_cache s1"
    if "cache_profile_items clock data d s1 = (r, s2)" for data s1 r s2
    using uc_cache_profile_items [of clock data d s1] that by simp
  show "profiles_round api clock part d s = Inl (r, s') \<Longrightarrow>
     undervalued_stocks_cache s' = undervalued_stocks_cache s"
    by (auto simp: profiles_round_def Let_def simp del: cache_profile_items.simps dest!: a
        split: prod.splits option.splits body.splits sum.splits list.splits if_splits)
  show "profiles_round api clock part d s = Inr (d', s') \<Longrightarrow>
     undervalued_stocks_cache s' = undervalued_stocks_cache s"
    by (auto simp: profiles_round_def Let_def simp del: cache_profile_items.simps dest!: a
        split: prod.splits option.splits body.splits sum.splits list.splits if_splits)
qed

lemma uc_profiles_loop_snd:
  assumes "profiles_loop api clock part d s = Some y"
  shows "undervalued_stocks_cache (snd y) = undervalued_stocks_cache s"
proof (rule profiles_loop.raw_induct
    [where P = "\<lambda>api clock part d s y. undervalued_stocks_cache (snd y) = undervalued_stocks_cache s",
      OF _ assms])
  fix loop :: "fmp_api \<Rightarrow> (string \<Rightarrow> string) \<Rightarrow> nat \<Rightarrow> (string \<times> profile) list \<Rightarrow> state
     \<Rightarrow> ((py_exception + (string \<times> profile) list) \<times> state) option"
  fix api clock part d s y
  assume IH: "\<And>api clock part d s y. loop api clock part d s = Some y \<Longrightarrow>
      undervalued_stocks_cache (snd y) = undervalued_stocks_cache s"
    and step: "(case profiles_round api clock part d s of
                  Inl result \<Rightarrow> Some result
                | Inr (d, s1) \<Rightarrow> loop api clock (part + 1) d s1) = Some y"
  show "undervalued_stocks_cache (snd y) = undervalued_stocks_cache s"
  proof (cases "profiles_round api clock part d s")
    case (Inl result)
    with step have "profiles_round api clock part d s = Inl (fst y, snd y)" by simp
    then show ?thesis by (rule uc_profiles_round(1))
  next
    case (Inr next_round)
    obtain d1 s1 where nr: "next_round = (d1, s1)" by (cases next_round)
    with Inr step have "loop api clock (part + 1) d1 s1 = Some y" by simp
    from IH [OF this] have "undervalued_stocks_cache (snd y) = undervalued_stocks_cache s1" .
    moreover have "undervalued_stocks_cache s1 = undervalued_stocks_cache s"
      using Inr nr by (auto intro: uc_profiles_round(2))
    ultimately show ?thesis by simp
  qed
qed

lemma uc_profiles_loop:
  "profiles_loop api clock part d s = Some (r, s') \<Longrightarrow>
     undervalued_stocks_cache s' = undervalued_stocks_cache s"
  by (drule uc_profiles_loop_snd) simp

lemma uc_get_profiles_bulk:
  "get_profiles_bulk api clock s = Some (r, s') \<Longrightarrow>
     undervalued_stocks_cache s' = undervalued_stocks_cache s"
  by (auto simp: get_profiles_bulk_def split: option.splits prod.splits sum.splits
      dest: uc_profiles_loop)

lemma find_undervalued_stocks_distinct:
  assumes run: "find_undervalued_stocks api clock s = Some (r, s')"
    and d: "distinct (map Symbol (undervalued_stocks_cache s))"
  shows "distinct (map Symbol (undervalued_stocks_cache s'))"
proof -
  obtain all_stocks s1 where a: "get_all_stocks api s = (all_stocks, s1)"
    by (cases "get_all_stocks api s")
  then have s1: "undervalued_stocks_cache s1 = undervalued_stocks_cache s"
    using uc_get_all_stocks [of api s] by simp
  obtain b s2 where b: "get_dcf_bulk api clock s1 = (b, s2)"
    by (cases "get_dcf_bulk api clock s1")
  then have s2: "undervalued_stocks_cache s2 = undervalued_stocks_cache s1"
    using uc_get_dcf_bulk [of api clock s1] by simp
  show ?thesis
  proof (cases b)
    case (Inl e)
    with run a b have "s' = s2" by (simp add: find_undervalued_stocks_def)
    with s1 s2 d show ?thesis by simp
  next
    case (Inr dd)
    with run a b obtain p s3 where p: "get_profiles_bulk api clock s2 = Some (p, s3)"
      by (cases "get_profiles_bulk api clock s2") (auto simp: find_undervalued_stocks_def)
    from uc_get_profiles_bulk [OF p] have s3: "undervalued_stocks_cache s3 = undervalued_stocks_cache s2" .
    show ?thesis
    proof (cases p)
      case (Inl e)
      with run a b Inr p have "s' = s3" by (simp add: find_undervalued_stocks_def)
      with s1 s2 s3 d show ?thesis by simp
    next
      case pb: (Inr pb)
      let ?s4 = "s3\<lparr>undervalued_stocks := [], fair_stocks := []\<rparr>"
      show ?thesis
      proof (cases all_stocks)
        case None
        with run a b Inr p pb have "s' = ?s4" by (simp add: find_undervalued_stocks_def Let_def)
        with s1 s2 s3 d show ?thesis by simp
      next
        case (Some stocks)
        let ?r0 = "\<lparr>final = ?s4, stocks_details = [], skipped = 0\<rparr>"
        from run a b Inr p pb Some
        have "s' = final (process_stocks api clock (dd \<noteq> None) dd pb (20 / 100) stocks ?r0)"
          by (simp add: find_undervalued_stocks_def Let_def)
        moreover have "distinct (map Symbol (undervalued_stocks_cache (final ?r0)))"
          using s1 s2 s3 d by simp
        ultimately show ?thesis by (simp add: process_stocks_distinct)
      qed
    qed
  qed
qed

lemma fetch_main_distinct:
  assumes run: "fetch_main API_KEY api clock s = Some res"
    and d: "distinct (map Symbol (undervalued_stocks_cache s))"
  shows "distinct (map Symbol (undervalued_stocks_cache (state_after res)))"
proof -
  have *: "distinct (map Symbol (undervalued_stocks_cache t'))"
    if "find_undervalued_stocks api clock (add_log es s) = Some (r, t')" for es r t'
    using find_undervalued_stocks_distinct [OF that] d by simp
  show ?thesis
    using run d
    by (auto simp: fetch_main_def split: option.splits if_splits prod.splits bool.splits sum.splits
        dest: *)
qed

end
